theory Spec2Isabelle
  imports Main
begin

section \<open>Exceptions, external calls and the client state\<close>

text \<open>
  The client (\<^verbatim>\<open>src/ftp_client.py\<close>, class \<^verbatim>\<open>FTPClient\<close>) drives \<^verbatim>\<open>ftplib\<close> sessions
  and the local file system. Everything the source raises or lets through is a
  subclass of Python's \<^verbatim>\<open>Exception\<close>; the ones the source names or provokes have a
  constructor of their own, each carrying its message (\<^verbatim>\<open>str(e)\<close>). The messages
  of the source are kept word for word; those that the interpreter words itself
  (\<^verbatim>\<open>TypeError\<close>, \<^verbatim>\<open>AttributeError\<close>, \<^verbatim>\<open>UnboundLocalError\<close>) are given in short.
  \<^verbatim>\<open>KeyboardInterrupt\<close> and \<^verbatim>\<open>SystemExit\<close>, which are no subclasses of
  \<^verbatim>\<open>Exception\<close>, are outside the model.
\<close>

datatype exn =
    FTPConnectionError string
  | FTPTransferError string
  | error_perm string
  | error_temp string
  | TimeoutError string
  | OSError string
  | TypeError string
  | AttributeError string
  | ValueError string
  | IndexError string
  | UnboundLocalError string
  | OtherException string

fun str_exn :: "exn \<Rightarrow> string" where
  "str_exn (FTPConnectionError m) = m"
| "str_exn (FTPTransferError m) = m"
| "str_exn (error_perm m) = m"
| "str_exn (error_temp m) = m"
| "str_exn (TimeoutError m) = m"
| "str_exn (OSError m) = m"
| "str_exn (TypeError m) = m"
| "str_exn (AttributeError m) = m"
| "str_exn (ValueError m) = m"
| "str_exn (IndexError m) = m"
| "str_exn (UnboundLocalError m) = m"
| "str_exn (OtherException m) = m"

text \<open>
  A session is a Python object; its identity is a number. The calls that leave the
  client are the \<^verbatim>\<open>ftplib\<close> methods on a session and the file-system primitives;
  \<open>Connect\<close> stands for the whole \<^verbatim>\<open>try\<close> block of \<^verbatim>\<open>_create_connection\<close>
  (constructor, \<^verbatim>\<open>connect\<close>, \<^verbatim>\<open>login\<close>, \<^verbatim>\<open>prot_p\<close>), \<open>Md5\<close> for \<^verbatim>\<open>calculate_md5\<close>
  (open, read, digest).
\<close>

type_synonym conn = nat

datatype extcall =
    Connect
  | Noop conn
  | Quit conn
  | Size conn string
  | Retr conn string
  | Stor conn string
  | Nlst conn string
  | Cwd conn string
  | Mkd conn string
  | Delete conn string
  | Rename conn string string
  | SendCmd conn string
  | OpenWB string
  | OpenRB string
  | GetSize string
  | Md5 string
  | Remove string

text \<open>
  The server and the file system are not part of the repository. Their answers are
  given by an environment: for the \<open>n\<close>-th external call of a run (counted by \<open>tick\<close>)
  and the call made, what comes back. A theorem over every environment covers every
  behaviour of the server, failures at any moment included. The answers are grouped
  by the type of the result: nothing, the optional integer of \<^verbatim>\<open>ftp.size\<close>, an
  integer, a string, a list of names, and for a streaming transfer the chunks handed
  to the callback followed by the error that ends the transfer, if any.
\<close>

record env =
  ans_void :: "nat \<Rightarrow> extcall \<Rightarrow> exn option"
  ans_size :: "nat \<Rightarrow> extcall \<Rightarrow> exn + int option"
  ans_int :: "nat \<Rightarrow> extcall \<Rightarrow> exn + int"
  ans_str :: "nat \<Rightarrow> extcall \<Rightarrow> exn + string"
  ans_list :: "nat \<Rightarrow> extcall \<Rightarrow> exn + string list"
  ans_stream :: "nat \<Rightarrow> extcall \<Rightarrow> string list \<times> exn option"

datatype level = INFO | WARNING | ERROR

text \<open>
  The fields of \<^verbatim>\<open>FTPClient\<close> that the modelled methods read or write, then the
  bookkeeping of the run: the identity of the next session object, the number of
  external calls made, their trace, and what was handed to the logger. Host,
  credentials, port, TLS flag and timeout only parameterise the \<open>Connect\<close> call.
  \<open>connection_pool\<close> is the Python list: \<^verbatim>\<open>append\<close> adds at the end, \<^verbatim>\<open>pop()\<close>
  takes the last element.
\<close>

record world =
  connection_pool :: "conn list"
  max_connections :: int
  retry_attempts :: int
  retry_multiplier :: int
  retry_max :: int
  next_conn :: nat
  tick :: nat
  trace :: "extcall list"
  logged :: "(level \<times> string) list"

definition FTPClient_init :: "int \<Rightarrow> int \<Rightarrow> int \<Rightarrow> int \<Rightarrow> world" where
  "FTPClient_init max_conns attempts multiplier wait_max =
     \<lparr>connection_pool = [], max_connections = max_conns, retry_attempts = attempts,
      retry_multiplier = multiplier, retry_max = wait_max,
      next_conn = 0, tick = 0, trace = [], logged = []\<rparr>"

type_synonym 'a action = "world \<Rightarrow> (exn + 'a) \<times> world"

definition logger :: "level \<Rightarrow> string \<Rightarrow> world \<Rightarrow> world" where
  "logger l m w = w\<lparr>logged := logged w @ [(l, m)]\<rparr>"

definition issue :: "extcall \<Rightarrow> world \<Rightarrow> world" where
  "issue c w = w\<lparr>tick := Suc (tick w), trace := trace w @ [c]\<rparr>"

definition call_void :: "env \<Rightarrow> extcall \<Rightarrow> unit action" where
  "call_void E c w =
     ((case ans_void E (tick w) c of None \<Rightarrow> Inr () | Some e \<Rightarrow> Inl e), issue c w)"

definition call_size :: "env \<Rightarrow> extcall \<Rightarrow> (int option) action" where
  "call_size E c w = (ans_size E (tick w) c, issue c w)"

definition call_int :: "env \<Rightarrow> extcall \<Rightarrow> int action" where
  "call_int E c w = (ans_int E (tick w) c, issue c w)"

definition call_str :: "env \<Rightarrow> extcall \<Rightarrow> string action" where
  "call_str E c w = (ans_str E (tick w) c, issue c w)"

definition call_list :: "env \<Rightarrow> extcall \<Rightarrow> (string list) action" where
  "call_list E c w = (ans_list E (tick w) c, issue c w)"

text \<open>Sequencing: an exception ends the block, a value is passed on.\<close>

definition bind :: "'a action \<Rightarrow> ('a \<Rightarrow> 'b action) \<Rightarrow> 'b action" where
  "bind m k w = (case m w of (Inl e, w') \<Rightarrow> (Inl e, w') | (Inr a, w') \<Rightarrow> k a w')"

definition raise :: "exn \<Rightarrow> 'a action" where
  "raise e w = (Inl e, w)"

definition return :: "'a \<Rightarrow> 'a action" where
  "return a w = (Inr a, w)"

section \<open>The retry decorator\<close>

text \<open>
  Modelled from the spec: the decorator \<^verbatim>\<open>@retry\<close> is imported from the library
  \<^verbatim>\<open>retrying\<close>, whose code is not among the sources. The loop follows section 4.2
  of the specification: invoke the operation; on a failure that the classifier calls
  retryable, wait and invoke it again, up to the maximum number of attempts, and when
  these are used up raise the last error; on a failure that the classifier calls
  fatal, raise at once. The attempt number starts at 1. The waits between attempts
  (fixed or exponential) change no call and are left out. The state is a type
  parameter, so the loop wraps any operation.
\<close>

function retry_loop ::
  "(exn \<Rightarrow> bool) \<Rightarrow> nat \<Rightarrow> nat \<Rightarrow> ('s \<Rightarrow> (exn + 'a) \<times> 's) \<Rightarrow> 's \<Rightarrow> (exn + 'a) \<times> 's"
where
  "retry_loop retry_on_exception stop_max_attempt_number attempt_number fn s =
     (case fn s of
        (Inr v, s') \<Rightarrow> (Inr v, s')
      | (Inl e, s') \<Rightarrow>
          if \<not> retry_on_exception e then (Inl e, s')
          else if stop_max_attempt_number \<le> attempt_number then (Inl e, s')
          else retry_loop retry_on_exception stop_max_attempt_number
                 (Suc attempt_number) fn s')"
  by pat_completeness auto
termination
  by (relation "measure (\<lambda>(r, m, a, f, s). m - a)") auto

text \<open>
  Every decorator of the source is written
  \<^verbatim>\<open>@retry(..., stop_max_attempt_number=5)\<close> with no \<^verbatim>\<open>retry_on_exception\<close>
  argument: no classifier is supplied, and every exception is retried. The
  constructor's \<^verbatim>\<open>retry_attempts\<close> is stored in the object and read nowhere.
\<close>

definition retry_always :: "exn \<Rightarrow> bool" where
  "retry_always e = True"

definition retry :: "nat \<Rightarrow> ('s \<Rightarrow> (exn + 'a) \<times> 's) \<Rightarrow> 's \<Rightarrow> (exn + 'a) \<times> 's" where
  "retry stop_max_attempt_number fn = retry_loop retry_always stop_max_attempt_number 1 fn"

text \<open>Counting the invocations of an operation: the counter rides beside its state.\<close>

definition counted :: "('s \<Rightarrow> (exn + 'a) \<times> 's) \<Rightarrow> nat \<times> 's \<Rightarrow> (exn + 'a) \<times> (nat \<times> 's)" where
  "counted fn ns = (case fn (snd ns) of (r, s') \<Rightarrow> (r, (Suc (fst ns), s')))"

text \<open>
  Remembering where the latest invocation started: that state rides beside the
  current one. The state at which the last attempt of a wrapped call starts is then
  what a run of the wrapper leaves there.
\<close>

definition remembering :: "('s \<Rightarrow> (exn + 'a) \<times> 's) \<Rightarrow> 's \<times> 's \<Rightarrow> (exn + 'a) \<times> ('s \<times> 's)" where
  "remembering fn ss = (case fn (snd ss) of (r, s') \<Rightarrow> (r, (snd ss, s')))"

definition last_attempt :: "nat \<Rightarrow> ('s \<Rightarrow> (exn + 'a) \<times> 's) \<Rightarrow> 's \<Rightarrow> 's" where
  "last_attempt stop_max_attempt_number fn s =
     fst (snd (retry stop_max_attempt_number (remembering fn) (s, s)))"

section \<open>The session pool\<close>

text \<open>
  \<^verbatim>\<open>_create_connection\<close>: the body turns every failure into \<^verbatim>\<open>FTPConnectionError\<close>;
  the decorator is \<^verbatim>\<open>@retry(stop_max_attempt_number=5, wait_fixed=2000)\<close>.
\<close>

definition create_connection_body :: "env \<Rightarrow> conn action" where
  "create_connection_body E w =
     (case call_void E Connect w of
        (Inr u, w1) \<Rightarrow> (Inr (next_conn w1), w1\<lparr>next_conn := Suc (next_conn w1)\<rparr>)
      | (Inl e, w1) \<Rightarrow>
          (case e of
             TimeoutError m \<Rightarrow>
               (Inl (FTPConnectionError ''Timeout error while connecting to FTP server.''),
                logger ERROR ''Connection attempt timed out, retrying...'' w1)
           | _ \<Rightarrow>
               (Inl (FTPConnectionError (''Error connecting to FTP server: '' @ str_exn e)),
                w1)))"

definition create_connection :: "env \<Rightarrow> conn action" where
  "create_connection E = retry 5 (create_connection_body E)"

text \<open>
  \<^verbatim>\<open>_get_connection\<close> and \<^verbatim>\<open>_release_connection\<close>. Both run under \<^verbatim>\<open>self.lock\<close>
  from the first statement to the last, so each is one atomic step of the pool.
\<close>

definition get_connection :: "env \<Rightarrow> conn action" where
  "get_connection E w =
     (if length (connection_pool w) > 0 then
        (let conn = last (connection_pool w);
             w1 = w\<lparr>connection_pool := butlast (connection_pool w)\<rparr>
         in case call_void E (Noop conn) w1 of
              (Inr u, w2) \<Rightarrow> (Inr conn, w2)
            | (Inl e, w2) \<Rightarrow>
                create_connection E (logger WARNING ''Recreating a dropped FTP connection.'' w2))
      else create_connection E w)"

definition release_connection :: "env \<Rightarrow> conn \<Rightarrow> bool \<Rightarrow> unit action" where
  "release_connection E conn auto_release w =
     (if auto_release then
        (if int (length (connection_pool w)) < max_connections w
         then (Inr (), w\<lparr>connection_pool := connection_pool w @ [conn]\<rparr>)
         else call_void E (Quit conn) w)
      else (Inr (), w))"

text \<open>
  The context manager \<^verbatim>\<open>ftp_connection\<close>: acquire, run the block, and release in
  \<^verbatim>\<open>finally\<close>. An exception of the release replaces the outcome of the block.
\<close>

definition ftp_connection :: "env \<Rightarrow> bool \<Rightarrow> (conn \<Rightarrow> 'a action) \<Rightarrow> 'a action" where
  "ftp_connection E auto_release body w =
     (case get_connection E w of
        (Inl e, w1) \<Rightarrow> (Inl e, w1)
      | (Inr conn, w1) \<Rightarrow>
          (case body conn w1 of
             (r, w2) \<Rightarrow>
               (case release_connection E conn auto_release w2 of
                  (Inl e, w3) \<Rightarrow> (Inl e, w3)
                | (Inr u, w3) \<Rightarrow> (r, w3))))"

section \<open>Strings and paths\<close>

text \<open>
  The string operations of the source: \<^verbatim>\<open>startswith\<close>, \<^verbatim>\<open>in\<close> on strings,
  \<^verbatim>\<open>lower\<close> (on ASCII letters), \<^verbatim>\<open>split(' ')\<close>, and \<^verbatim>\<open>os.path\<close> in its POSIX form
  (\<^verbatim>\<open>basename\<close>, \<^verbatim>\<open>dirname\<close>, \<^verbatim>\<open>join\<close>), which is the form of the remote paths.
\<close>

definition startswith :: "string \<Rightarrow> string \<Rightarrow> bool" where
  "startswith s p = (take (length p) s = p)"

fun contains :: "string \<Rightarrow> string \<Rightarrow> bool" where
  "contains [] p = (p = [])"
| "contains (c # cs) p = (startswith (c # cs) p \<or> contains cs p)"

definition lower_char :: "char \<Rightarrow> char" where
  "lower_char c =
     (let n = (of_char c :: nat) in if 65 \<le> n \<and> n \<le> 90 then char_of (n + 32) else c)"

definition lower :: "string \<Rightarrow> string" where
  "lower s = map lower_char s"

fun split_on :: "char \<Rightarrow> string \<Rightarrow> string list" where
  "split_on sep [] = [[]]"
| "split_on sep (c # cs) =
     (if c = sep then [] # split_on sep cs
      else (case split_on sep cs of
              [] \<Rightarrow> [[c]]
            | y # ys \<Rightarrow> (c # y) # ys))"

definition slash :: char where
  "slash = CHR ''/''"

definition basename :: "string \<Rightarrow> string" where
  "basename p = rev (takeWhile (\<lambda>c. c \<noteq> slash) (rev p))"

definition dirname :: "string \<Rightarrow> string" where
  "dirname p =
     (let head = rev (dropWhile (\<lambda>c. c \<noteq> slash) (rev p))
      in if head \<noteq> [] \<and> head \<noteq> replicate (length head) slash
         then rev (dropWhile (\<lambda>c. c = slash) (rev head))
         else head)"

definition join :: "string \<Rightarrow> string \<Rightarrow> string" where
  "join a b =
     (if startswith b [slash] then b
      else if a = [] \<or> last a = slash then a @ b
      else a @ [slash] @ b)"

section \<open>Transfers\<close>

text \<open>
  A streaming transfer hands each chunk to the callback, in order; an exception of
  the callback ends the transfer at once, otherwise the transfer ends as the server
  ends it. The callback is an action of the client: it can issue calls of its own.
\<close>

fun feed :: "(string \<Rightarrow> unit action) \<Rightarrow> string list \<Rightarrow> unit action" where
  "feed callback [] w = (Inr (), w)"
| "feed callback (d # ds) w =
     (case callback d w of
        (Inl e, w') \<Rightarrow> (Inl e, w')
      | (Inr u, w') \<Rightarrow> feed callback ds w')"

definition stream_call :: "env \<Rightarrow> extcall \<Rightarrow> (string \<Rightarrow> unit action) \<Rightarrow> unit action" where
  "stream_call E c callback w =
     (case ans_stream E (tick w) c of
        (chunks, fin) \<Rightarrow>
          (case feed callback chunks (issue c w) of
             (Inl e, w') \<Rightarrow> (Inl e, w')
           | (Inr u, w') \<Rightarrow> ((case fin of Some e \<Rightarrow> Inl e | None \<Rightarrow> Inr ()), w')))"

text \<open>
  \<^verbatim>\<open>download_file\<close> is defined twice in the class; the second definition (line 233)
  replaces the first and is the method the client has. Its callbacks:
  with no \<^verbatim>\<open>progress_callback\<close> the chunk is written and the progress bar updated;
  with one, the inner \<^verbatim>\<open>def progress_callback(data)\<close> rebinds the very name it calls,
  so after writing the chunk it calls itself with \<^verbatim>\<open>len(data)\<close> and \<^verbatim>\<open>file.write\<close>
  of an integer raises \<^verbatim>\<open>TypeError\<close>. The bytes written go to the local file, which
  the model does not hold: what \<^verbatim>\<open>os.path.getsize\<close> reports afterwards is an answer
  of the environment. Writing and the progress bar are taken not to fail. Neither
  callback issues a call on the session.
\<close>

definition download_callback :: "'cb option \<Rightarrow> string \<Rightarrow> unit action" where
  "download_callback progress_callback data =
     (case progress_callback of
        None \<Rightarrow> return ()
      | Some f \<Rightarrow> raise (TypeError ''a bytes-like object is required, not int''))"

text \<open>The streaming phase: the \<^verbatim>\<open>with open(local_file_path, 'wb')\<close> block.\<close>

definition download_stream :: "env \<Rightarrow> string \<Rightarrow> string \<Rightarrow> 'cb option \<Rightarrow> conn \<Rightarrow> unit action" where
  "download_stream E remote_file_path local_file_path progress_callback ftp =
     bind (call_void E (OpenWB local_file_path)) (\<lambda>u.
     bind (call_size E (Size ftp remote_file_path)) (\<lambda>total_size.
     stream_call E (Retr ftp remote_file_path) (download_callback progress_callback)))"

text \<open>The check after the stream: a local file of zero bytes is a failed transfer.\<close>

definition download_check :: "env \<Rightarrow> string \<Rightarrow> string \<Rightarrow> unit action" where
  "download_check E remote_file_path local_file_path =
     bind (call_int E (GetSize local_file_path)) (\<lambda>local_file_size.
       if local_file_size = 0
       then raise (FTPTransferError
                    (''Downloaded file '' @ local_file_path @ '' is empty (0KB)''))
       else (\<lambda>w. (Inr (),
              logger INFO (''Downloaded: '' @ remote_file_path @ '' to '' @ local_file_path) w)))"

definition download_file_body ::
  "env \<Rightarrow> string \<Rightarrow> string \<Rightarrow> 'cb option \<Rightarrow> bool \<Rightarrow> unit action" where
  "download_file_body E remote_file_path local_file_path progress_callback auto_release w =
     (case ftp_connection E auto_release
             (\<lambda>ftp. bind (download_stream E remote_file_path local_file_path
                             progress_callback ftp)
                      (\<lambda>u. download_check E remote_file_path local_file_path))
             (logger INFO (''Starting download of '' @ remote_file_path @ '' to ''
                           @ local_file_path) w) of
        (Inr u, w1) \<Rightarrow> (Inr u, w1)
      | (Inl e, w1) \<Rightarrow>
          (case e of
             error_perm m \<Rightarrow>
               (Inl (FTPTransferError
                      (''Failed to download file '' @ remote_file_path @ '': '' @ m)),
                if startswith m ''550''
                then logger ERROR (''File not found on server: '' @ remote_file_path) w1
                else w1)
           | _ \<Rightarrow> (Inl (FTPTransferError (''Error during download: '' @ str_exn e)), w1)))"

definition download_file ::
  "env \<Rightarrow> string \<Rightarrow> string \<Rightarrow> 'cb option \<Rightarrow> bool \<Rightarrow> unit action" where
  "download_file E remote_file_path local_file_path progress_callback auto_release =
     retry 5 (download_file_body E remote_file_path local_file_path progress_callback
                auto_release)"

text \<open>
  \<^verbatim>\<open>upload_file\<close>: here the \<^verbatim>\<open>with self.ftp_connection\<close> stands outside the
  \<^verbatim>\<open>try\<close>, so a failure to acquire a session, or of the release, leaves the method
  as it is, not as \<^verbatim>\<open>FTPTransferError\<close>. A callback of the caller is any function
  of the block sent that may raise.
\<close>

definition upload_callback :: "(string \<Rightarrow> exn option) option \<Rightarrow> string \<Rightarrow> unit action" where
  "upload_callback progress_callback block =
     (case progress_callback of
        None \<Rightarrow> return ()
      | Some f \<Rightarrow> (case f block of None \<Rightarrow> return () | Some e \<Rightarrow> raise e))"

definition upload_file_body ::
  "env \<Rightarrow> string \<Rightarrow> string \<Rightarrow> (string \<Rightarrow> exn option) option \<Rightarrow> bool \<Rightarrow> unit action" where
  "upload_file_body E local_file_path remote_file_path progress_callback auto_release w =
     ftp_connection E auto_release
       (\<lambda>ftp w0.
          case bind (call_void E (OpenRB local_file_path)) (\<lambda>u.
               bind (call_int E (GetSize local_file_path)) (\<lambda>total_size.
               stream_call E (Stor ftp remote_file_path) (upload_callback progress_callback)))
               w0 of
            (Inr u, w1) \<Rightarrow>
              (Inr u, logger INFO (''Uploaded: '' @ local_file_path @ '' to ''
                                   @ remote_file_path) w1)
          | (Inl e, w1) \<Rightarrow>
              (Inl (FTPTransferError
                     (''Failed to upload file '' @ local_file_path @ '': '' @ str_exn e)),
               logger WARNING (''Retry attempt for file upload: '' @ local_file_path) w1))
       (logger INFO (''Starting upload of '' @ local_file_path @ '' to ''
                     @ remote_file_path) w)"

definition upload_file ::
  "env \<Rightarrow> string \<Rightarrow> string \<Rightarrow> (string \<Rightarrow> exn option) option \<Rightarrow> bool \<Rightarrow> unit action" where
  "upload_file E local_file_path remote_file_path progress_callback auto_release =
     retry 5 (upload_file_body E local_file_path remote_file_path progress_callback
                auto_release)"

section \<open>Directory and file operations\<close>

text \<open>
  \<^verbatim>\<open>directory_exists\<close> answers \<^verbatim>\<open>False\<close> on \<^verbatim>\<open>ftplib.error_perm\<close> and lets every
  other exception through. \<^verbatim>\<open>create_directory\<close> turns every exception into
  \<^verbatim>\<open>FTPTransferError\<close> and is retried.
\<close>

definition directory_exists :: "env \<Rightarrow> string \<Rightarrow> bool \<Rightarrow> bool action" where
  "directory_exists E remote_path auto_release w =
     (case ftp_connection E auto_release
             (\<lambda>ftp. bind (call_void E (Cwd ftp remote_path)) (\<lambda>u. return True)) w of
        (Inl (error_perm m), w1) \<Rightarrow> (Inr False, w1)
      | (r, w1) \<Rightarrow> (r, w1))"

definition create_directory_body :: "env \<Rightarrow> string \<Rightarrow> bool \<Rightarrow> unit action" where
  "create_directory_body E remote_directory_path auto_release w =
     (case ftp_connection E auto_release
             (\<lambda>ftp. bind (call_void E (Mkd ftp remote_directory_path))
                      (\<lambda>u w'. (Inr (),
                         logger INFO (''Created directory: '' @ remote_directory_path) w')))
             w of
        (Inl e, w1) \<Rightarrow>
          (Inl (FTPTransferError
                 (''Failed to create directory '' @ remote_directory_path @ '': ''
                  @ str_exn e)), w1)
      | (Inr u, w1) \<Rightarrow> (Inr u, w1))"

definition create_directory :: "env \<Rightarrow> string \<Rightarrow> bool \<Rightarrow> unit action" where
  "create_directory E remote_directory_path auto_release =
     retry 5 (create_directory_body E remote_directory_path auto_release)"

text \<open>
  \<^verbatim>\<open>check_file_exists\<close>: the listing of the directory is searched for the base name;
  \<^verbatim>\<open>except Exception\<close> logs and answers \<^verbatim>\<open>False\<close>. The method is not decorated.
\<close>

definition check_file_exists :: "env \<Rightarrow> string \<Rightarrow> bool \<Rightarrow> bool action" where
  "check_file_exists E remote_file_path auto_release w =
     (case ftp_connection E auto_release
             (\<lambda>ftp. bind (call_list E (Nlst ftp (dirname remote_file_path)))
                      (\<lambda>files. return (basename remote_file_path \<in> set files))) w of
        (Inr b, w1) \<Rightarrow> (Inr b, w1)
      | (Inl e, w1) \<Rightarrow>
          (Inr False,
           logger ERROR (''Failed to check if file exists '' @ remote_file_path @ '': ''
                         @ str_exn e) w1))"

text \<open>
  \<^verbatim>\<open>move_file\<close>. The module imports the class (\<^verbatim>\<open>from datetime import datetime\<close>),
  so \<^verbatim>\<open>datetime.datetime.now()\<close> in the branch for an existing destination without
  overwrite is an attribute lookup on the class and raises \<^verbatim>\<open>AttributeError\<close>; the
  statements after it in that branch (\<^verbatim>\<open>splitext\<close>, the new name, the new
  destination path, the log line) are never reached. The block is cut in three:
  making sure of the destination directory, the decision on a collision (which
  yields the destination path of the rename), and the rename.
\<close>

definition move_prepare :: "env \<Rightarrow> string \<Rightarrow> unit action" where
  "move_prepare E dest_remote_directory =
     bind (directory_exists E dest_remote_directory False) (\<lambda>ex.
       if \<not> ex
       then bind (create_directory E dest_remote_directory False)
              (\<lambda>u w. (Inr (),
                 logger INFO (''Created directory: '' @ dest_remote_directory) w))
       else return ())"

definition move_collision :: "env \<Rightarrow> conn \<Rightarrow> string \<Rightarrow> bool \<Rightarrow> bool \<Rightarrow> string action" where
  "move_collision E ftp dest_remote_path dest_exists overwrite =
     (if dest_exists then
        (if overwrite then
           (\<lambda>w. case call_void E (Delete ftp dest_remote_path) w of
                  (Inr u, w1) \<Rightarrow>
                    (Inr dest_remote_path,
                     logger INFO (''Deleted existing file at destination: ''
                                  @ dest_remote_path) w1)
                | (Inl (error_perm m), w1) \<Rightarrow>
                    (Inl (FTPTransferError
                           (''Failed to delete existing file at '' @ dest_remote_path
                            @ '': '' @ m)), w1)
                | (Inl e, w1) \<Rightarrow> (Inl e, w1))
         else raise (AttributeError
                      ''type object datetime.datetime has no attribute datetime''))
      else return dest_remote_path)"

definition move_block :: "env \<Rightarrow> string \<Rightarrow> string \<Rightarrow> bool \<Rightarrow> conn \<Rightarrow> unit action" where
  "move_block E src_remote_path dest_remote_directory overwrite ftp =
     bind (move_prepare E dest_remote_directory) (\<lambda>u.
     bind (check_file_exists E
             (join dest_remote_directory (basename src_remote_path)) False) (\<lambda>dest_exists.
     bind (move_collision E ftp (join dest_remote_directory (basename src_remote_path))
             dest_exists overwrite) (\<lambda>dest_remote_path.
     bind (call_void E (Rename ftp src_remote_path dest_remote_path)) (\<lambda>u w.
       (Inr (), logger INFO (''Moved file from '' @ src_remote_path @ '' to ''
                             @ dest_remote_path) w)))))"

text \<open>
  The handlers of \<^verbatim>\<open>move_file\<close>. The first one reads \<^verbatim>\<open>dest_remote_path\<close>, which
  is bound only once the destination directory has been made sure of; the only
  \<^verbatim>\<open>error_perm\<close> that can arrive before is one of the release.
\<close>

definition move_dest_bound :: "env \<Rightarrow> string \<Rightarrow> string \<Rightarrow> world \<Rightarrow> string option" where
  "move_dest_bound E src_remote_path dest_remote_directory w =
     (case get_connection E w of
        (Inl e, w1) \<Rightarrow> None
      | (Inr ftp, w1) \<Rightarrow>
          (case move_prepare E dest_remote_directory w1 of
             (Inl e, w2) \<Rightarrow> None
           | (Inr u, w2) \<Rightarrow> Some (join dest_remote_directory (basename src_remote_path))))"

definition move_handler :: "string \<Rightarrow> string \<Rightarrow> string option \<Rightarrow> exn \<Rightarrow> exn" where
  "move_handler src_remote_path dest_remote_directory dest e =
     (case e of
        error_perm error_msg \<Rightarrow>
          if contains error_msg ''550'' then
            (if contains (lower error_msg) ''already exists'' then
               (case dest of
                  Some dest_remote_path \<Rightarrow>
                    FTPTransferError
                      (''Destination file already exists and overwrite is disabled: ''
                       @ dest_remote_path)
                | None \<Rightarrow>
                    UnboundLocalError
                      ''cannot access local variable dest_remote_path'')
             else FTPTransferError (''Permission denied: '' @ error_msg))
          else FTPTransferError
                 (''Failed to move file from '' @ src_remote_path @ '' to ''
                  @ dest_remote_directory @ '': '' @ error_msg)
      | _ \<Rightarrow> FTPTransferError
               (''Failed to move file from '' @ src_remote_path @ '' to ''
                @ dest_remote_directory @ '': '' @ str_exn e))"

definition move_file_body :: "env \<Rightarrow> string \<Rightarrow> string \<Rightarrow> bool \<Rightarrow> bool \<Rightarrow> unit action" where
  "move_file_body E src_remote_path dest_remote_directory auto_release overwrite w =
     (case ftp_connection E auto_release
             (move_block E src_remote_path dest_remote_directory overwrite) w of
        (Inr u, w1) \<Rightarrow> (Inr u, w1)
      | (Inl e, w1) \<Rightarrow>
          (Inl (move_handler src_remote_path dest_remote_directory
                  (move_dest_bound E src_remote_path dest_remote_directory w) e), w1))"

definition move_file :: "env \<Rightarrow> string \<Rightarrow> string \<Rightarrow> bool \<Rightarrow> bool \<Rightarrow> unit action" where
  "move_file E src_remote_path dest_remote_directory auto_release overwrite =
     retry 5 (move_file_body E src_remote_path dest_remote_directory auto_release overwrite)"

section \<open>Integrity verification\<close>

definition calculate_md5 :: "env \<Rightarrow> string \<Rightarrow> string action" where
  "calculate_md5 E file_path = call_str E (Md5 file_path)"

text \<open>
  The inner \<^verbatim>\<open>try\<close> of \<^verbatim>\<open>verify_file_integrity\<close>: sizes first, then the server's
  digest, the second word of the reply to \<^verbatim>\<open>SITE MD5\<close>.
\<close>

definition verify_remote_checksum :: "env \<Rightarrow> conn \<Rightarrow> string \<Rightarrow> string \<Rightarrow> string action" where
  "verify_remote_checksum E ftp local_file_path remote_file_path =
     bind (call_int E (GetSize local_file_path)) (\<lambda>local_size.
     bind (call_size E (Size ftp remote_file_path)) (\<lambda>remote_size.
       if Some local_size \<noteq> remote_size
       then raise (FTPTransferError
                    (''File size mismatch for '' @ local_file_path @ '' and ''
                     @ remote_file_path))
       else bind (call_str E (SendCmd ftp (''SITE MD5 '' @ remote_file_path))) (\<lambda>reply.
              case split_on (CHR '' '') reply of
                a # b # rest \<Rightarrow> return b
              | _ \<Rightarrow> raise (IndexError ''list index out of range''))))"

text \<open>
  Its handler \<^verbatim>\<open>except Exception\<close>: download the remote file beside the local one
  (the decorated \<^verbatim>\<open>download_file\<close>, with its default arguments), digest it, remove it.
\<close>

definition verify_fallback :: "env \<Rightarrow> string \<Rightarrow> string \<Rightarrow> string action" where
  "verify_fallback E local_file_path remote_file_path w =
     bind (download_file E remote_file_path (local_file_path @ ''.temp'')
             (None :: unit option) True) (\<lambda>u.
     bind (calculate_md5 E (local_file_path @ ''.temp'')) (\<lambda>remote_checksum.
     bind (call_void E (Remove (local_file_path @ ''.temp''))) (\<lambda>u.
     return remote_checksum)))
       (logger WARNING
          ''SITE MD5 command not supported. Downloading remote file for checksum comparison.''
          w)"

definition verify_block :: "env \<Rightarrow> string \<Rightarrow> string \<Rightarrow> string \<Rightarrow> conn \<Rightarrow> unit action" where
  "verify_block E local_file_path remote_file_path local_checksum ftp w =
     (case (case verify_remote_checksum E ftp local_file_path remote_file_path w of
              (Inr c, w1) \<Rightarrow> (Inr c, w1)
            | (Inl e, w1) \<Rightarrow> verify_fallback E local_file_path remote_file_path w1) of
        (Inl e, w2) \<Rightarrow> (Inl e, w2)
      | (Inr remote_checksum, w2) \<Rightarrow>
          if local_checksum \<noteq> remote_checksum
          then (Inl (FTPTransferError
                      (''Checksum mismatch for '' @ local_file_path @ '' and ''
                       @ remote_file_path)), w2)
          else (Inr (),
                logger INFO (''Checksum verified for '' @ local_file_path @ '' and ''
                             @ remote_file_path) w2))"

definition verify_file_integrity :: "env \<Rightarrow> string \<Rightarrow> string \<Rightarrow> bool \<Rightarrow> unit action" where
  "verify_file_integrity E local_file_path remote_file_path auto_release w =
     (case calculate_md5 E local_file_path w of
        (Inl e, w1) \<Rightarrow> (Inl e, w1)
      | (Inr local_checksum, w1) \<Rightarrow>
          (case ftp_connection E auto_release
                  (verify_block E local_file_path remote_file_path local_checksum) w1 of
             (Inl e, w2) \<Rightarrow>
               (Inl (FTPTransferError
                      (''Failed to verify integrity for '' @ local_file_path @ '': ''
                       @ str_exn e)), w2)
           | (Inr u, w2) \<Rightarrow> (Inr u, w2)))"

section \<open>Batches\<close>

text \<open>
  \<^verbatim>\<open>parallel_upload\<close> and \<^verbatim>\<open>parallel_download\<close> submit one task per item to a
  \<^verbatim>\<open>ThreadPoolExecutor\<close> of \<^verbatim>\<open>max_connections\<close> workers, which refuses a number of
  workers below one with \<^verbatim>\<open>ValueError\<close>. The model runs the tasks one after the
  other in the order of submission: the schedule of a single worker, and the only
  schedule of a batch of one item. The loop over the futures then takes each
  outcome in turn: \<^verbatim>\<open>FTPTransferError\<close> is logged, any other exception leaves the
  loop and, once the executor has shut down, the method.
\<close>

fun submit_all :: "('i \<Rightarrow> unit action) \<Rightarrow> 'i list \<Rightarrow> world \<Rightarrow> (exn + unit) list \<times> world" where
  "submit_all task [] w = ([], w)"
| "submit_all task (i # rest) w =
     (case task i w of
        (r, w1) \<Rightarrow> (case submit_all task rest w1 of (rs, w2) \<Rightarrow> (r # rs, w2)))"

fun await_all :: "string \<Rightarrow> (exn + unit) list \<Rightarrow> unit action" where
  "await_all what [] w = (Inr (), w)"
| "await_all what (Inr u # rs) w = await_all what rs w"
| "await_all what (Inl e # rs) w =
     (case e of
        FTPTransferError m \<Rightarrow>
          await_all what rs
            (logger ERROR (''Error during parallel '' @ what @ '': '' @ m) w)
      | _ \<Rightarrow> (Inl e, w))"

definition parallel_upload :: "env \<Rightarrow> (string \<times> string) list \<Rightarrow> unit action" where
  "parallel_upload E files w =
     (if max_connections w \<le> 0
      then (Inl (ValueError ''max_workers must be greater than 0''), w)
      else (case submit_all (\<lambda>(local, remote). upload_file E local remote None True)
                   files w of
              (rs, w1) \<Rightarrow> await_all ''upload'' rs w1))"

definition parallel_download :: "env \<Rightarrow> (string \<times> string) list \<Rightarrow> unit action" where
  "parallel_download E files w =
     (if max_connections w \<le> 0
      then (Inl (ValueError ''max_workers must be greater than 0''), w)
      else (case submit_all
                   (\<lambda>(remote, local). download_file E remote local (None :: unit option) True)
                   files w of
              (rs, w1) \<Rightarrow> await_all ''download'' rs w1))"

text \<open>An outcome of a task that the loop over the futures gets past.\<close>

definition settled :: "exn + unit \<Rightarrow> bool" where
  "settled r =
     (case r of Inr u \<Rightarrow> True | Inl (FTPTransferError m) \<Rightarrow> True | Inl e \<Rightarrow> False)"

section \<open>Runs of the pool\<close>

text \<open>
  A run of the pool is a sequence of calls of \<^verbatim>\<open>_get_connection\<close> and
  \<^verbatim>\<open>_release_connection\<close> by any number of holders, in any order; each call is
  atomic, since both methods hold the lock throughout. The state of a run is the
  client together with the sessions checked out: an acquire that returns a session
  checks it out to the caller, a release takes one checkout of the session named
  away. \<^verbatim>\<open>_release_connection\<close> is run on whatever session it is given: it does
  not ask whether the session is checked out, or already idle.
\<close>

datatype pool_op = Acquire | Release conn bool

fun pool_step :: "env \<Rightarrow> world \<times> conn list \<Rightarrow> pool_op \<Rightarrow> world \<times> conn list" where
  "pool_step E (w, held) Acquire =
     (case get_connection E w of
        (Inr c, w') \<Rightarrow> (w', held @ [c])
      | (Inl e, w') \<Rightarrow> (w', held))"
| "pool_step E (w, held) (Release c keep) =
     (snd (release_connection E c keep w), remove1 c held)"

definition pool_run :: "env \<Rightarrow> world \<times> conn list \<Rightarrow> pool_op list \<Rightarrow> world \<times> conn list" where
  "pool_run E s ops = foldl (pool_step E) s ops"

text \<open>
  The discipline of \<^verbatim>\<open>ftp_connection\<close>, the one caller of the two methods in the
  source: what is released is a session that is checked out at that moment. A
  sequence is disciplined from a state when each of its releases is of that kind
  in the state the run has reached by then.
\<close>

fun releases_held :: "world \<times> conn list \<Rightarrow> pool_op \<Rightarrow> bool" where
  "releases_held (w, held) Acquire = True"
| "releases_held (w, held) (Release c keep) = (c \<in> set held)"

fun disciplined :: "env \<Rightarrow> world \<times> conn list \<Rightarrow> pool_op list \<Rightarrow> bool" where
  "disciplined E s [] = True"
| "disciplined E s (op # ops) =
     (releases_held s op \<and> disciplined E (pool_step E s op) ops)"

text \<open>
  A well-formed state: the idle sessions are at most \<^verbatim>\<open>max_connections\<close>, no session
  object occurs twice among the idle and the checked-out ones, and every one of them
  was created before the next one to be created.
\<close>

definition pool_inv :: "world \<times> conn list \<Rightarrow> bool" where
  "pool_inv s =
     (int (length (connection_pool (fst s))) \<le> max_connections (fst s)
      \<and> distinct (connection_pool (fst s) @ snd s)
      \<and> list_all (\<lambda>c. c < next_conn (fst s)) (connection_pool (fst s) @ snd s))"

text \<open>
  What a pool method may do to the pool fields when it only talks to the server:
  nothing to the idle list and the capacity, and session identities only grow.
\<close>

definition pool_frame :: "world \<Rightarrow> world \<Rightarrow> bool" where
  "pool_frame w w' =
     (connection_pool w' = connection_pool w \<and> max_connections w' = max_connections w
      \<and> next_conn w \<le> next_conn w')"

section \<open>Environments and states for the examples\<close>

text \<open>A server and a file system that answer every call without error.\<close>

definition server_ok :: env where
  "server_ok =
     \<lparr>ans_void = (\<lambda>t c. None), ans_size = (\<lambda>t c. Inr (Some 100)),
      ans_int = (\<lambda>t c. Inr 100),
      ans_str = (\<lambda>t c. Inr ''213 900150983cd24fb0d6963f7d28e17f72''),
      ans_list = (\<lambda>t c. Inr []), ans_stream = (\<lambda>t c. ([''data''], None))\<rparr>"

text \<open>A server that answers every \<^verbatim>\<open>SIZE\<close> with the permanent error 550.\<close>

definition server_550 :: env where
  "server_550 = server_ok\<lparr>ans_size := (\<lambda>t c. Inl (error_perm ''550 No such file''))\<rparr>"

text \<open>
  The local file has 100 bytes, the server reports 200 for the remote one; the
  digest of the local file and the digest of the downloaded copy differ.
\<close>

definition server_size_mismatch :: env where
  "server_size_mismatch =
     \<lparr>ans_void = (\<lambda>t c. None),
      ans_size = (\<lambda>t c. Inr (Some 200)),
      ans_int = (\<lambda>t c. Inr 100),
      ans_str = (\<lambda>t c. if c = Md5 ''f.txt'' then Inr ''d41d'' else Inr ''900f''),
      ans_list = (\<lambda>t c. Inr []),
      ans_stream = (\<lambda>t c. ([''data''], None))\<rparr>"

text \<open>Every directory lists \<^verbatim>\<open>f.txt\<close> and \<^verbatim>\<open>g.txt\<close>.\<close>

definition server_collision :: env where
  "server_collision = server_ok\<lparr>ans_list := (\<lambda>t c. Inr [''f.txt'', ''g.txt''])\<rparr>"

text \<open>No connection can be made.\<close>

definition server_down :: env where
  "server_down =
     server_ok\<lparr>ans_void :=
       (\<lambda>t c. if c = Connect then Some (OSError ''Connection refused'') else None)\<rparr>"

text \<open>A download arrives in three chunks.\<close>

definition server_three_chunks :: env where
  "server_three_chunks =
     server_ok\<lparr>ans_stream := (\<lambda>t c. ([''aaaa'', ''bbbb'', ''cc''], None))\<rparr>"

text \<open>
  A download ends without error and without a chunk, and the local file measures
  zero bytes.
\<close>

definition server_empty_file :: env where
  "server_empty_file =
     server_ok\<lparr>ans_stream := (\<lambda>t c. ([], None)), ans_int := (\<lambda>t c. Inr 0)\<rparr>"

text \<open>Every listing fails with a transient error.\<close>

definition server_list_fails :: env where
  "server_list_fails =
     server_ok\<lparr>ans_list := (\<lambda>t c. Inl (error_temp ''421 Service not available''))\<rparr>"

text \<open>A client of capacity 1 whose pool is full.\<close>

definition full_pool :: world where
  "full_pool = (FTPClient_init 1 5 1000 10000)\<lparr>connection_pool := [0], next_conn := 2\<rparr>"

text \<open>A fresh client after one acquire.\<close>

definition after_acquire :: world where
  "after_acquire = snd (get_connection server_ok (FTPClient_init 5 5 1000 10000))"

text \<open>
  A classifier for which permanent errors of the server are fatal, and an operation
  that fails with one at every invocation.
\<close>

definition perm_is_fatal :: "exn \<Rightarrow> bool" where
  "perm_is_fatal e = (case e of error_perm m \<Rightarrow> False | _ \<Rightarrow> True)"

definition always_550 :: "nat \<Rightarrow> (exn + unit) \<times> nat" where
  "always_550 s = (Inl (error_perm ''550 No such file''), Suc s)"

text \<open>
  The first download ends without a chunk and leaves a local file of zero bytes;
  from the second attempt on the data arrives. The first attempt makes the calls
  numbered 0 to 4.
\<close>

definition server_second_try :: env where
  "server_second_try =
     server_ok\<lparr>ans_stream := (\<lambda>t c. if t < 5 then ([], None) else ([''data''], None)),
               ans_int := (\<lambda>t c. if t < 5 then Inr 0 else Inr 4)\<rparr>"

text \<open>
  The states of the last attempt of a download from \<open>server_empty_file\<close>, phase by
  phase.
\<close>

definition dl_start :: world where
  "dl_start =
     logger INFO (''Starting download of '' @ ''/r/f.txt'' @ '' to '' @ ''f.txt'')
       (last_attempt 5
          (download_file_body server_empty_file ''/r/f.txt'' ''f.txt'' (None :: unit option)
             True)
          (FTPClient_init 5 5 1000 10000))"

definition dl_acquired :: world where
  "dl_acquired = snd (get_connection server_empty_file dl_start)"

definition dl_streamed :: world where
  "dl_streamed = snd (download_stream server_empty_file ''/r/f.txt'' ''f.txt''
                        (None :: unit option) 0 dl_acquired)"

definition dl_measured :: world where
  "dl_measured = snd (call_int server_empty_file (GetSize ''f.txt'') dl_streamed)"

section \<open>The retry loop\<close>

declare retry_loop.simps [simp del]

text \<open>
  Whatever the loop returns is what the last invocation of the operation returned,
  from a state reached by the invocations before it.
\<close>

lemma retry_loop_last:
  assumes refl: "\<And>s. R s s"
    and trans: "\<And>a b c. R a b \<Longrightarrow> R b c \<Longrightarrow> R a c"
    and step: "\<forall>s r s'. fn s = (r, s') \<longrightarrow> R s s'"
    and run: "retry_loop p m a fn s = (r, s')"
  shows "\<exists>s0. R s s0 \<and> fn s0 = (r, s')"
  using step run
proof (induction p m a fn s rule: retry_loop.induct)
  case (1 p m a fn s)
  obtain r1 s1 where f: "fn s = (r1, s1)" by (cases "fn s")
  show ?case
  proof (cases r1)
    case (Inr v)
    with f "1.prems" have "(r, s') = (r1, s1)"
      by (simp add: retry_loop.simps[of p m a fn s])
    with f refl show ?thesis by auto
  next
    case (Inl e)
    show ?thesis
    proof (cases "p e \<and> \<not> m \<le> a")
      case False
      with f Inl "1.prems" have "(r, s') = (r1, s1)"
        by (auto simp add: retry_loop.simps[of p m a fn s] split: if_splits)
      with f refl show ?thesis by auto
    next
      case True
      with f Inl "1.prems" have "retry_loop p m (Suc a) fn s1 = (r, s')"
        by (simp add: retry_loop.simps[of p m a fn s])
      with "1.IH" "1.prems"(1) f Inl True
      obtain s0 where "R s1 s0" "fn s0 = (r, s')" by auto
      moreover have "R s s1" using "1.prems"(1) f by blast
      ultimately show ?thesis using trans by blast
    qed
  qed
qed

text \<open>
  Claim C2. An operation wrapped by the retry policy whose invocation raises an
  error that the policy's classifier calls fatal (not retryable) is invoked exactly
  once, and that error is raised at once: no further attempt is made. The counter
  beside the state counts the invocations.
\<close>

theorem retry_fatal_once:
  assumes "fn s = (Inl e, s')" and "\<not> retry_on_exception e"
  shows "retry_loop retry_on_exception stop_max_attempt_number 1 (counted fn) (0, s)
           = (Inl e, (1, s'))"
  using assms
  by (simp add: retry_loop.simps[of _ _ _ _ "(0, s)"] counted_def)

theorem retry_fatal_once_witness:
  "always_550 7 = (Inl (error_perm ''550 No such file''), 8)
   \<and> \<not> perm_is_fatal (error_perm ''550 No such file'')
   \<and> retry_loop perm_is_fatal 5 1 (counted always_550) (0, 7)
       = (Inl (error_perm ''550 No such file''), (1, 8))"
  using retry_fatal_once [of always_550 7 "error_perm ''550 No such file''" 8 perm_is_fatal 5]
  by (simp add: always_550_def perm_is_fatal_def)

text \<open>
  The decorators of the source supply no classifier: for the methods of the client
  every error is retryable, and an operation that fails at every invocation is
  invoked five times, whatever the client holds in \<^verbatim>\<open>retry_attempts\<close>.
\<close>

lemma retry_always_every_error: "retry_always e"
  by (simp add: retry_always_def)

lemma retry_exhausts:
  assumes "\<forall>s. \<exists>e s'. fn s = (Inl e, s')"
  shows "\<exists>e s'. retry_loop retry_always m a (counted fn) (n, s)
            = (Inl e, (n + Suc (m - a), s'))"
proof (induction "m - a" arbitrary: a n s)
  case 0
  from assms obtain e s' where "fn s = (Inl e, s')" by blast
  with 0 show ?case
    by (simp add: retry_loop.simps[of _ _ _ _ "(n, s)"] counted_def retry_always_def)
next
  case (Suc k)
  from assms obtain e s1 where f: "fn s = (Inl e, s1)" by blast
  from Suc(2) have k: "k = m - Suc a" "\<not> m \<le> a" by auto
  from Suc(1)[OF k(1), of "Suc n" s1] obtain e' s' where
    "retry_loop retry_always m (Suc a) (counted fn) (Suc n, s1)
       = (Inl e', (Suc n + Suc (m - Suc a), s'))"
    by blast
  with f k Suc(2) show ?case
    by (simp add: retry_loop.simps[of _ _ _ _ "(n, s)"] counted_def retry_always_def)
qed

lemma retry_five_invocations:
  assumes "\<forall>s. \<exists>e s'. fn s = (Inl e, s')"
  shows "\<exists>e s'. retry 5 (counted fn) (0, s) = (Inl e, (5, s'))"
  using retry_exhausts[OF assms, of 5 1 0 s] by (simp add: retry_def)

text \<open>
  Claim C3. The claim: an operation that raises a retryable error at every
  invocation is invoked exactly as many times as the retry attempt count given to
  the constructor, and the last error is raised. The code, for a client built with
  \<^verbatim>\<open>retry_attempts=3\<close> and a download whose \<^verbatim>\<open>SIZE\<close> is always refused with 550:
  \<^verbatim>\<open>download_file\<close> is invoked five times, as its decorator says, and raises the
  last error.
\<close>

theorem retry_attempts_ignored:
  "retry_attempts (FTPClient_init 5 3 1000 10000) = 3
   \<and> fst (snd (retry 5 (counted (download_file_body server_550 ''/r/f.txt'' ''f.txt''
                (None :: unit option) True)) (0, FTPClient_init 5 3 1000 10000))) = 5
   \<and> fst (download_file server_550 ''/r/f.txt'' ''f.txt'' (None :: unit option) True
            (FTPClient_init 5 3 1000 10000))
       = Inl (FTPTransferError ''Failed to download file /r/f.txt: 550 No such file'')
   \<and> trace (snd (download_file server_550 ''/r/f.txt'' ''f.txt'' (None :: unit option) True
            (FTPClient_init 5 3 1000 10000)))
       = [Connect, OpenWB ''f.txt'', Size 0 ''/r/f.txt'',
          Noop 0, OpenWB ''f.txt'', Size 0 ''/r/f.txt'',
          Noop 0, OpenWB ''f.txt'', Size 0 ''/r/f.txt'',
          Noop 0, OpenWB ''f.txt'', Size 0 ''/r/f.txt'',
          Noop 0, OpenWB ''f.txt'', Size 0 ''/r/f.txt'']"
  by code_simp

section \<open>The session pool: bound and exclusive ownership\<close>

lemma pool_frame_refl: "pool_frame w w"
  by (simp add: pool_frame_def)

lemma pool_frame_trans: "pool_frame a b \<Longrightarrow> pool_frame b c \<Longrightarrow> pool_frame a c"
  by (simp add: pool_frame_def)

lemma pool_frame_logger: "pool_frame w (logger l m w)"
  by (simp add: pool_frame_def logger_def)

lemma pool_frame_issue: "pool_frame w (issue c w)"
  by (simp add: pool_frame_def issue_def)

lemma call_void_frame: "call_void E c w = (r, w') \<Longrightarrow> pool_frame w w'"
  by (auto simp: call_void_def pool_frame_issue)

lemma create_connection_body_frame:
  "create_connection_body E w = (r, w') \<Longrightarrow> pool_frame w w'"
  by (auto simp: create_connection_body_def call_void_def pool_frame_def issue_def logger_def
      split: option.splits exn.splits)

lemma create_connection_body_fresh:
  "create_connection_body E w = (Inr c, w') \<Longrightarrow> c = next_conn w \<and> next_conn w' = Suc c"
  by (auto simp: create_connection_body_def call_void_def issue_def logger_def
      split: option.splits exn.splits)

lemma create_connection_fresh:
  assumes "create_connection E w = (r, w')"
  shows "pool_frame w w' \<and> (\<forall>c. r = Inr c \<longrightarrow> next_conn w \<le> c \<and> c < next_conn w')"
proof -
  have "\<forall>s r s'. create_connection_body E s = (r, s') \<longrightarrow> pool_frame s s'"
    using create_connection_body_frame by blast
  have "\<exists>s0. pool_frame w s0 \<and> create_connection_body E s0 = (r, w')"
  proof (rule retry_loop_last[where R = pool_frame])
    show "pool_frame s s" for s by (rule pool_frame_refl)
    show "pool_frame a b \<Longrightarrow> pool_frame b c \<Longrightarrow> pool_frame a c" for a b c
      by (rule pool_frame_trans)
    show "\<forall>s r s'. create_connection_body E s = (r, s') \<longrightarrow> pool_frame s s'"
      by fact
    show "retry_loop retry_always 5 1 (create_connection_body E) w = (r, w')"
      using assms by (simp add: create_connection_def retry_def)
  qed
  then obtain s0 where s0: "pool_frame w s0" "create_connection_body E s0 = (r, w')"
    by blast
  from s0 have "pool_frame w w'"
    using create_connection_body_frame pool_frame_trans by blast
  moreover have "next_conn w \<le> c \<and> c < next_conn w'" if "r = Inr c" for c
    using s0 that create_connection_body_fresh[of E s0 c w'] by (auto simp: pool_frame_def)
  ultimately show ?thesis by blast
qed

lemma get_connection_cases:
  assumes "get_connection E w = (r, w')"
  shows "max_connections w' = max_connections w \<and> next_conn w \<le> next_conn w'
     \<and> (connection_pool w' = connection_pool w \<or> connection_pool w' = butlast (connection_pool w))
     \<and> (\<forall>c. r = Inr c \<longrightarrow>
           (connection_pool w \<noteq> [] \<and> c = last (connection_pool w)
              \<and> connection_pool w' = butlast (connection_pool w))
           \<or> (next_conn w \<le> c \<and> c < next_conn w'))"
proof (cases "connection_pool w = []")
  case True
  with assms have "create_connection E w = (r, w')"
    by (simp add: get_connection_def)
  from create_connection_fresh[OF this] show ?thesis
    by (auto simp: pool_frame_def)
next
  case False
  define w1 where "w1 = w\<lparr>connection_pool := butlast (connection_pool w)\<rparr>"
  obtain r2 w2 where cv: "call_void E (Noop (last (connection_pool w))) w1 = (r2, w2)"
    by (cases "call_void E (Noop (last (connection_pool w))) w1")
  from call_void_frame[OF cv] have f12: "pool_frame w1 w2" .
  show ?thesis
  proof (cases r2)
    case (Inr u)
    with assms False cv have "r = Inr (last (connection_pool w))" "w' = w2"
      by (auto simp: get_connection_def Let_def w1_def)
    with f12 False show ?thesis by (auto simp: pool_frame_def w1_def)
  next
    case (Inl e)
    with assms False cv have
      "create_connection E (logger WARNING ''Recreating a dropped FTP connection.'' w2) = (r, w')"
      by (auto simp: get_connection_def Let_def w1_def)
    from create_connection_fresh[OF this] f12 show ?thesis
      by (auto simp: pool_frame_def w1_def logger_def)
  qed
qed

lemma release_connection_cases:
  assumes "release_connection E c keep w = (r, w')"
  shows "max_connections w' = max_connections w \<and> next_conn w' = next_conn w
     \<and> (connection_pool w' = connection_pool w
         \<or> (int (length (connection_pool w)) < max_connections w
              \<and> connection_pool w' = connection_pool w @ [c]))"
  using assms
  by (auto simp: release_connection_def call_void_def issue_def split: if_splits)

lemma distinct_butlast_append:
  "distinct (xs @ ys) \<Longrightarrow> xs \<noteq> [] \<Longrightarrow> distinct (butlast xs @ ys @ [last xs])"
  by (induction xs) (auto split: if_splits dest: in_set_butlastD)

lemma pool_step_bound:
  assumes "int (length (connection_pool (fst s))) \<le> max_connections (fst s)"
  shows "int (length (connection_pool (fst (pool_step E s op))))
           \<le> max_connections (fst (pool_step E s op))
     \<and> max_connections (fst (pool_step E s op)) = max_connections (fst s)"
proof -
  obtain w held where s: "s = (w, held)" by (cases s)
  show ?thesis
  proof (cases op)
    case Acquire
    obtain r w' where g: "get_connection E w = (r, w')" by (cases "get_connection E w")
    from get_connection_cases[OF g] assms s
    have "int (length (connection_pool w')) \<le> max_connections w'
        \<and> max_connections w' = max_connections w"
      by auto
    with g s Acquire show ?thesis by (cases r) simp_all
  next
    case (Release c keep)
    obtain r w' where rl: "release_connection E c keep w = (r, w')"
      by (cases "release_connection E c keep w")
    from release_connection_cases[OF rl] assms s
    have "int (length (connection_pool w')) \<le> max_connections w'
        \<and> max_connections w' = max_connections w"
      by auto
    with rl s Release show ?thesis by simp
  qed
qed

lemma pool_run_bound:
  "int (length (connection_pool (fst s))) \<le> max_connections (fst s) \<Longrightarrow>
   int (length (connection_pool (fst (pool_run E s ops))))
     \<le> max_connections (fst (pool_run E s ops))
   \<and> max_connections (fst (pool_run E s ops)) = max_connections (fst s)"
  unfolding pool_run_def
proof (induction ops arbitrary: s)
  case Nil
  then show ?case by simp
next
  case (Cons op ops)
  from pool_step_bound[OF Cons.prems, of E op] Cons.IH[of "pool_step E s op"]
  show ?case by simp
qed

lemma pool_step_inv:
  assumes "pool_inv s" and "releases_held s op"
  shows "pool_inv (pool_step E s op)"
proof -
  obtain w held where s: "s = (w, held)" by (cases s)
  from assms s have len: "int (length (connection_pool w)) \<le> max_connections w"
    and dist: "distinct (connection_pool w @ held)"
    and bound: "list_all (\<lambda>c. c < next_conn w) (connection_pool w @ held)"
    by (simp_all add: pool_inv_def)
  show ?thesis
  proof (cases op)
    case Acquire
    obtain r w' where g: "get_connection E w = (r, w')" by (cases "get_connection E w")
    note gc = get_connection_cases[OF g]
    have len': "int (length (connection_pool w')) \<le> max_connections w'"
      using gc len by auto
    have sub: "set (connection_pool w') \<subseteq> set (connection_pool w)"
      using gc by (auto dest: in_set_butlastD)
    have dpool: "distinct (connection_pool w' @ held)"
      using gc dist sub by (auto simp: distinct_butlast)
    have mono: "next_conn w \<le> next_conn w'" using gc by simp
    have "\<forall>c\<in>set (connection_pool w) \<union> set held. c < next_conn w"
      using bound by (auto simp: list_all_iff)
    with mono sub have "\<forall>c\<in>set (connection_pool w') \<union> set held. c < next_conn w'"
      by (metis Un_iff subsetD order_less_le_trans)
    then have bnd: "list_all (\<lambda>c. c < next_conn w') (connection_pool w' @ held)"
      by (auto simp: list_all_iff)
    show ?thesis
    proof (cases r)
      case (Inl e)
      with g s Acquire len' dpool bnd gc show ?thesis by (simp add: pool_inv_def)
    next
      case (Inr c)
      have "distinct (connection_pool w' @ held @ [c]) \<and> c < next_conn w'"
      proof -
        from gc Inr consider
          (pop) "connection_pool w \<noteq> []" "c = last (connection_pool w)"
                "connection_pool w' = butlast (connection_pool w)"
          | (new) "next_conn w \<le> c" "c < next_conn w'" by blast
        then show ?thesis
        proof cases
          case pop
          from pop(1) have "last (connection_pool w) \<in> set (connection_pool w)" by simp
          with bound have "last (connection_pool w) < next_conn w"
            by (auto simp: list_all_iff)
          with mono pop distinct_butlast_append[OF dist] show ?thesis
            by auto
        next
          case new
          have "\<forall>x\<in>set (connection_pool w) \<union> set held. x < next_conn w"
            using bound by (auto simp: list_all_iff)
          with new(1) have "c \<notin> set (connection_pool w) \<union> set held"
            by (metis not_le)
          with sub have "c \<notin> set (connection_pool w')" "c \<notin> set held" by auto
          with dpool new(2) show ?thesis by auto
        qed
      qed
      with g s Acquire Inr len' bnd gc show ?thesis by (simp add: pool_inv_def)
    qed
  next
    case (Release c keep)
    with assms(2) s have True: "c \<in> set held" by simp
    obtain r w' where rl: "release_connection E c keep w = (r, w')"
      by (cases "release_connection E c keep w")
    note rc = release_connection_cases[OF rl]
    from dist True have cn: "c \<notin> set (connection_pool w)" "c \<notin> set (remove1 c held)"
      "distinct (remove1 c held)" by auto
    have "pool_inv (w', remove1 c held)"
      using rc len dist bound cn True
      by (auto simp: pool_inv_def list_all_iff dest: notin_set_remove1)
    with rl s Release show ?thesis by simp
  qed
qed

lemma pool_run_inv:
  "pool_inv s \<Longrightarrow> disciplined E s ops \<Longrightarrow> pool_inv (pool_run E s ops)"
  unfolding pool_run_def
proof (induction ops arbitrary: s)
  case Nil
  then show ?case by simp
next
  case (Cons op ops)
  from Cons.prems have "releases_held s op" "disciplined E (pool_step E s op) ops"
    by simp_all
  with pool_step_inv[OF Cons.prems(1), of op E] Cons.IH[of "pool_step E s op"]
  show ?case by simp
qed

text \<open>
  A block of \<^verbatim>\<open>ftp_connection\<close> is an acquire followed by the release of the session
  acquired: a disciplined pair of steps. For a block that does nothing the two
  steps are all it does to the client.
\<close>

lemma ftp_connection_disciplined:
  assumes "get_connection E w = (Inr c, w1)"
  shows "disciplined E (w, held) [Acquire, Release c keep]
     \<and> snd (ftp_connection E keep (\<lambda>conn. return ()) w)
         = fst (pool_run E (w, held) [Acquire, Release c keep])"
  using assms
  by (auto simp: ftp_connection_def pool_run_def return_def split: prod.splits sum.splits)

text \<open>
  Claim C4, as the code has it. Start from a client whose idle pool holds at most
  \<^verbatim>\<open>max_connections\<close> sessions, each session object once and each created earlier
  (so that a session created later is none of them), and with no session checked
  out. Then after every sequence of acquire and release steps (hence at every
  moment of it, each prefix being such a sequence) the idle sessions number at most
  \<^verbatim>\<open>max_connections\<close>; and after every such sequence in which each release is of
  a session checked out at that moment, as the releases of \<^verbatim>\<open>ftp_connection\<close> are,
  no session is both idle and checked out.
\<close>

theorem pool_bounded_and_exclusive:
  assumes "int (length (connection_pool w)) \<le> max_connections w"
    and "distinct (connection_pool w)"
    and "list_all (\<lambda>c. c < next_conn w) (connection_pool w)"
  shows "int (length (connection_pool (fst (pool_run E (w, []) ops)))) \<le> max_connections w
     \<and> (disciplined E (w, []) ops \<longrightarrow>
          set (connection_pool (fst (pool_run E (w, []) ops)))
            \<inter> set (snd (pool_run E (w, []) ops)) = {})"
proof
  from pool_run_bound[of "(w, [])" E ops] assms(1)
  show "int (length (connection_pool (fst (pool_run E (w, []) ops)))) \<le> max_connections w"
    by simp
next
  show "disciplined E (w, []) ops \<longrightarrow>
          set (connection_pool (fst (pool_run E (w, []) ops)))
            \<inter> set (snd (pool_run E (w, []) ops)) = {}"
  proof
    assume d: "disciplined E (w, []) ops"
    from assms have "pool_inv (w, [])" by (simp add: pool_inv_def)
    from pool_run_inv[OF this d] show
      "set (connection_pool (fst (pool_run E (w, []) ops)))
         \<inter> set (snd (pool_run E (w, []) ops)) = {}"
      by (auto simp: pool_inv_def)
  qed
qed

text \<open>
  A fresh client of capacity 2: three holders acquire, all three release with
  \<^verbatim>\<open>auto_release\<close>, the third session finds the pool full and is closed, and a
  fourth acquire takes the session released last.
\<close>

theorem pool_bounded_and_exclusive_witness:
  "int (length (connection_pool (FTPClient_init 2 5 1000 10000))) \<le>
     max_connections (FTPClient_init 2 5 1000 10000)
   \<and> distinct (connection_pool (FTPClient_init 2 5 1000 10000))
   \<and> list_all (\<lambda>c. c < next_conn (FTPClient_init 2 5 1000 10000))
        (connection_pool (FTPClient_init 2 5 1000 10000))
   \<and> disciplined server_ok (FTPClient_init 2 5 1000 10000, [])
        [Acquire, Acquire, Acquire, Release 1 True, Release 0 True, Release 2 True, Acquire]
   \<and> int (length (connection_pool (fst (pool_run server_ok (FTPClient_init 2 5 1000 10000, [])
        [Acquire, Acquire, Acquire, Release 1 True, Release 0 True, Release 2 True,
         Acquire])))) \<le> max_connections (FTPClient_init 2 5 1000 10000)
   \<and> set (connection_pool (fst (pool_run server_ok (FTPClient_init 2 5 1000 10000, [])
        [Acquire, Acquire, Acquire, Release 1 True, Release 0 True, Release 2 True,
         Acquire])))
       \<inter> set (snd (pool_run server_ok (FTPClient_init 2 5 1000 10000, [])
        [Acquire, Acquire, Acquire, Release 1 True, Release 0 True, Release 2 True,
         Acquire])) = {}
   \<and> pool_run server_ok (FTPClient_init 2 5 1000 10000, [])
        [Acquire, Acquire, Acquire, Release 1 True, Release 0 True, Release 2 True, Acquire]
      = (\<lparr>connection_pool = [1], max_connections = 2, retry_attempts = 5,
          retry_multiplier = 1000, retry_max = 10000, next_conn = 3, tick = 5,
          trace = [Connect, Connect, Connect, Quit 2, Noop 0], logged = []\<rparr>, [0])"
proof -
  have a: "int (length (connection_pool (FTPClient_init 2 5 1000 10000))) \<le>
     max_connections (FTPClient_init 2 5 1000 10000)"
    by (simp add: FTPClient_init_def)
  have b: "distinct (connection_pool (FTPClient_init 2 5 1000 10000))"
    by (simp add: FTPClient_init_def)
  have c: "list_all (\<lambda>c. c < next_conn (FTPClient_init 2 5 1000 10000))
        (connection_pool (FTPClient_init 2 5 1000 10000))"
    by (simp add: FTPClient_init_def)
  have d: "pool_run server_ok (FTPClient_init 2 5 1000 10000, [])
        [Acquire, Acquire, Acquire, Release 1 True, Release 0 True, Release 2 True, Acquire]
      = (\<lparr>connection_pool = [1], max_connections = 2, retry_attempts = 5,
          retry_multiplier = 1000, retry_max = 10000, next_conn = 3, tick = 5,
          trace = [Connect, Connect, Connect, Quit 2, Noop 0], logged = []\<rparr>, [0])"
    by code_simp
  have e: "disciplined server_ok (FTPClient_init 2 5 1000 10000, [])
        [Acquire, Acquire, Acquire, Release 1 True, Release 0 True, Release 2 True, Acquire]"
    by code_simp
  from pool_bounded_and_exclusive
         [OF a b c, of server_ok
            "[Acquire, Acquire, Acquire, Release 1 True, Release 0 True, Release 2 True,
              Acquire]"]
       a b c d e
  show ?thesis by simp
qed

text \<open>
  The claim as written, for every sequence of acquires and releases, fails where a
  session is released twice. On a fresh client of capacity 2: a holder acquires
  session 0 and releases it, session 0 is released once more and now stands twice
  in the idle list; the next acquire checks it out while it is still idle.
\<close>

theorem double_release_counterexample:
  "int (length (connection_pool (FTPClient_init 2 5 1000 10000))) \<le>
     max_connections (FTPClient_init 2 5 1000 10000)
   \<and> pool_run server_ok (FTPClient_init 2 5 1000 10000, [])
        [Acquire, Release 0 True, Release 0 True, Acquire]
      = (\<lparr>connection_pool = [0], max_connections = 2, retry_attempts = 5,
          retry_multiplier = 1000, retry_max = 10000, next_conn = 1, tick = 2,
          trace = [Connect, Noop 0], logged = []\<rparr>, [0])
   \<and> 0 \<in> set (connection_pool (fst (pool_run server_ok (FTPClient_init 2 5 1000 10000, [])
        [Acquire, Release 0 True, Release 0 True, Acquire])))
   \<and> 0 \<in> set (snd (pool_run server_ok (FTPClient_init 2 5 1000 10000, [])
        [Acquire, Release 0 True, Release 0 True, Acquire]))
   \<and> \<not> disciplined server_ok (FTPClient_init 2 5 1000 10000, [])
        [Acquire, Release 0 True, Release 0 True, Acquire]"
  by code_simp

text \<open>
  Claim C5, as the code has it. A release with \<^verbatim>\<open>auto_release\<close> set and room in the
  pool appends the session to the idle list; with \<^verbatim>\<open>auto_release\<close> set and no room
  it issues \<^verbatim>\<open>quit\<close> on the session, leaves the idle list as it is, and ends as
  \<^verbatim>\<open>quit\<close> ends; without \<^verbatim>\<open>auto_release\<close> it does nothing at all: the session is
  neither put back nor closed.
\<close>

theorem release_connection_three_cases:
  "(keep \<and> int (length (connection_pool w)) < max_connections w \<longrightarrow>
      release_connection E c keep w
        = (Inr (), w\<lparr>connection_pool := connection_pool w @ [c]\<rparr>))
   \<and> (keep \<and> \<not> int (length (connection_pool w)) < max_connections w \<longrightarrow>
      release_connection E c keep w = call_void E (Quit c) w
      \<and> connection_pool (snd (release_connection E c keep w)) = connection_pool w
      \<and> trace (snd (release_connection E c keep w)) = trace w @ [Quit c])
   \<and> (\<not> keep \<longrightarrow> release_connection E c keep w = (Inr (), w))"
  by (simp add: release_connection_def call_void_def issue_def)

theorem release_connection_three_cases_witness:
  "release_connection server_ok 0 True (FTPClient_init 1 5 1000 10000)
     = (Inr (), (FTPClient_init 1 5 1000 10000)\<lparr>connection_pool := [0]\<rparr>)
   \<and> release_connection server_ok 1 True full_pool = call_void server_ok (Quit 1) full_pool
   \<and> connection_pool (snd (release_connection server_ok 1 True full_pool)) = [0]
   \<and> trace (snd (release_connection server_ok 1 True full_pool)) = [Quit 1]
   \<and> release_connection server_ok 1 False full_pool = (Inr (), full_pool)"
  using release_connection_three_cases [of True "FTPClient_init 1 5 1000 10000" server_ok 0]
    release_connection_three_cases [of True full_pool server_ok 1]
    release_connection_three_cases [of False full_pool server_ok 1]
  by (simp add: FTPClient_init_def full_pool_def call_void_def issue_def server_ok_def)

text \<open>
  The claim as written fails for a release without \<^verbatim>\<open>auto_release\<close>: the session
  acquired from a fresh client and released so is afterwards not in the idle list,
  and no \<^verbatim>\<open>quit\<close> was issued on it.
\<close>

theorem release_not_kept_counterexample:
  "fst (get_connection server_ok (FTPClient_init 5 5 1000 10000)) = Inr 0
   \<and> release_connection server_ok 0 False after_acquire = (Inr (), after_acquire)
   \<and> 0 \<notin> set (connection_pool after_acquire)
   \<and> Quit 0 \<notin> set (trace after_acquire)"
  unfolding after_acquire_def by code_simp

section \<open>Downloads\<close>

lemma download_check_zero:
  assumes "call_int E (GetSize local) w2 = (Inr 0, w3)"
  shows "download_check E remote local w2
    = (Inl (FTPTransferError (''Downloaded file '' @ local @ '' is empty (0KB)'')), w3)"
  using assms by (simp add: download_check_def bind_def raise_def)

text \<open>
  One attempt: when the session was acquired, the \<^verbatim>\<open>with open\<close> block
  (\<^verbatim>\<open>retrbinary\<close> included) ended without an exception and the local file then
  measures zero bytes, the body of \<^verbatim>\<open>download_file\<close> raises \<^verbatim>\<open>FTPTransferError\<close>.
\<close>

lemma download_attempt_zero_byte_fails:
  assumes acq: "get_connection E
                  (logger INFO (''Starting download of '' @ remote @ '' to '' @ local) w)
                = (Inr ftp, w1)"
    and str: "download_stream E remote local cb ftp w1 = (Inr (), w2)"
    and sz: "call_int E (GetSize local) w2 = (Inr 0, w3)"
  shows "(\<exists>m. fst (download_file_body E remote local cb auto_release w)
               = Inl (FTPTransferError m))
     \<and> (fst (release_connection E ftp auto_release w3) = Inr () \<longrightarrow>
          fst (download_file_body E remote local cb auto_release w)
            = Inl (FTPTransferError
                (''Error during download: Downloaded file '' @ local @ '' is empty (0KB)'')))"
proof -
  obtain r4 w4 where rel: "release_connection E ftp auto_release w3 = (r4, w4)"
    by (cases "release_connection E ftp auto_release w3")
  have blk: "bind (download_stream E remote local cb ftp)
               (\<lambda>u. download_check E remote local) w1
             = (Inl (FTPTransferError (''Downloaded file '' @ local @ '' is empty (0KB)'')), w3)"
    using str download_check_zero[OF sz, of remote] by (simp add: bind_def)
  show ?thesis
  proof (cases r4)
    case (Inr u)
    with acq blk rel show ?thesis
      by (simp add: download_file_body_def ftp_connection_def)
  next
    case (Inl e)
    with acq blk rel show ?thesis
      by (cases e) (simp_all add: download_file_body_def ftp_connection_def)
  qed
qed

text \<open>
  The decorated call returns what its last attempt returned, and that attempt
  started in the state remembered.
\<close>

lemma retry_loop_remembering:
  "retry_loop p m a (remembering fn) (x, s) = (r, (s0, s')) \<Longrightarrow>
   retry_loop p m a fn s = (r, s') \<and> fn s0 = (r, s')"
proof (induction p m a fn s arbitrary: x rule: retry_loop.induct)
  case (1 p m a fn s)
  obtain r1 s1 where f: "fn s = (r1, s1)" by (cases "fn s")
  then have rf: "remembering fn (x, s) = (r1, (s, s1))"
    by (simp add: remembering_def)
  show ?case
  proof (cases r1)
    case (Inr v)
    from f Inr have plain: "retry_loop p m a fn s = (r1, s1)"
      by (simp add: retry_loop.simps[of p m a fn s])
    from rf Inr have "retry_loop p m a (remembering fn) (x, s) = (r1, (s, s1))"
      by (simp add: retry_loop.simps[of p m a "remembering fn" "(x, s)"])
    with "1.prems" have "r = r1" "s0 = s" "s' = s1" by simp_all
    with plain f show ?thesis by simp
  next
    case (Inl e)
    show ?thesis
    proof (cases "p e \<and> \<not> m \<le> a")
      case False
      with f Inl have plain: "retry_loop p m a fn s = (r1, s1)"
        by (auto simp add: retry_loop.simps[of p m a fn s])
      from False rf Inl have "retry_loop p m a (remembering fn) (x, s) = (r1, (s, s1))"
        by (auto simp add: retry_loop.simps[of p m a "remembering fn" "(x, s)"])
      with "1.prems" have "r = r1" "s0 = s" "s' = s1" by simp_all
      with plain f show ?thesis by simp
    next
      case True
      with f rf Inl "1.prems"
      have "retry_loop p m (Suc a) (remembering fn) (s, s1) = (r, (s0, s'))"
        by (simp add: retry_loop.simps[of p m a "remembering fn" "(x, s)"])
      with "1.IH" f Inl True
      have "retry_loop p m (Suc a) fn s1 = (r, s') \<and> fn s0 = (r, s')" by auto
      with f Inl True show ?thesis
        by (simp add: retry_loop.simps[of p m a fn s])
    qed
  qed
qed

lemma retry_last_attempt:
  "fn (last_attempt n fn s) = retry n fn s"
proof -
  obtain r s0 s' where run: "retry n (remembering fn) (s, s) = (r, (s0, s'))"
    by (cases "retry n (remembering fn) (s, s)") auto
  then have "last_attempt n fn s = s0" by (simp add: last_attempt_def)
  with retry_loop_remembering[of retry_always n 1 fn s s r s0 s'] run
  show ?thesis by (simp add: retry_def)
qed

text \<open>
  Every error of \<^verbatim>\<open>download_file\<close> is an \<^verbatim>\<open>FTPTransferError\<close>, and
  \<^verbatim>\<open>download_file\<close> never returns normally past a measurement of zero bytes.
\<close>

lemma download_file_body_error:
  "fst (download_file_body E remote local cb ar w) = Inl e \<Longrightarrow> \<exists>m. e = FTPTransferError m"
  by (auto simp: download_file_body_def split: prod.splits sum.splits exn.splits)

lemma download_file_error:
  assumes "fst (download_file E remote local cb ar w) = Inl e"
  shows "\<exists>m. e = FTPTransferError m"
proof -
  obtain r w' where run: "download_file E remote local cb ar w = (r, w')"
    by (cases "download_file E remote local cb ar w")
  have "\<exists>s0. (\<lambda>a b. True) w s0 \<and> download_file_body E remote local cb ar s0 = (r, w')"
    by (rule retry_loop_last[where R = "\<lambda>a b. True"])
       (use run in \<open>simp_all add: download_file_def retry_def\<close>)
  then obtain s0 where "download_file_body E remote local cb ar s0 = (r, w')" by blast
  with assms run download_file_body_error[of E remote local cb ar s0 e] show ?thesis by simp
qed

lemma download_check_not_ok:
  assumes "\<forall>t n. ans_int E t (GetSize local) = Inr n \<longrightarrow> n = 0"
  shows "fst (download_check E remote local w) \<noteq> Inr u"
proof (cases "ans_int E (tick w) (GetSize local)")
  case (Inl e)
  then show ?thesis by (simp add: download_check_def bind_def call_int_def)
next
  case (Inr n)
  with assms have "n = 0" by blast
  with Inr show ?thesis by (simp add: download_check_def bind_def call_int_def raise_def)
qed

lemma download_file_body_not_ok:
  assumes "\<forall>t n. ans_int E t (GetSize local) = Inr n \<longrightarrow> n = 0"
  shows "fst (download_file_body E remote local cb ar w) \<noteq> Inr u"
proof
  assume ok: "fst (download_file_body E remote local cb ar w) = Inr u"
  define w0 where "w0 = logger INFO (''Starting download of '' @ remote @ '' to '' @ local) w"
  from ok obtain w5 where fc: "ftp_connection E ar
             (\<lambda>ftp. bind (download_stream E remote local cb ftp)
                      (\<lambda>u. download_check E remote local)) w0 = (Inr u, w5)"
    by (auto simp: download_file_body_def w0_def split: prod.splits sum.splits exn.splits)
  then obtain ftp w1 w2 where
    "bind (download_stream E remote local cb ftp) (\<lambda>u. download_check E remote local) w1
       = (Inr u, w2)"
    by (auto simp: ftp_connection_def split: prod.splits sum.splits)
  then obtain w3 where "download_check E remote local w3 = (Inr u, w2)"
    by (auto simp: bind_def split: prod.splits sum.splits)
  with download_check_not_ok[OF assms, of remote w3 u] show False by simp
qed

text \<open>
  Claim C6. A download whose streaming phase completes but leaves a local file of
  zero bytes makes \<^verbatim>\<open>download_file\<close> raise \<^verbatim>\<open>FTPTransferError\<close>, though the stream
  reported success. The method is the decorated one, so the download that decides
  is its last attempt: when that attempt acquires its session, ends the
  \<^verbatim>\<open>with open\<close> block (\<^verbatim>\<open>retrbinary\<close> included) without an exception and then
  measures zero bytes, \<^verbatim>\<open>download_file\<close> raises \<^verbatim>\<open>FTPTransferError\<close>, with the
  message of the empty-file check when the release of the session succeeds. And
  where the local file never measures anything but zero bytes, \<^verbatim>\<open>download_file\<close>
  raises \<^verbatim>\<open>FTPTransferError\<close> whatever the streams reported.
\<close>

theorem download_zero_byte_is_failure:
  "(get_connection E
      (logger INFO (''Starting download of '' @ remote @ '' to '' @ local)
         (last_attempt 5 (download_file_body E remote local cb auto_release) w))
      = (Inr ftp, w1)
    \<and> download_stream E remote local cb ftp w1 = (Inr (), w2)
    \<and> call_int E (GetSize local) w2 = (Inr 0, w3)
    \<longrightarrow> (\<exists>m. fst (download_file E remote local cb auto_release w)
                = Inl (FTPTransferError m))
        \<and> (fst (release_connection E ftp auto_release w3) = Inr () \<longrightarrow>
             fst (download_file E remote local cb auto_release w)
               = Inl (FTPTransferError
                   (''Error during download: Downloaded file '' @ local
                    @ '' is empty (0KB)''))))
   \<and> ((\<forall>t n. ans_int E t (GetSize local) = Inr n \<longrightarrow> n = 0)
    \<longrightarrow> (\<exists>m. fst (download_file E remote local cb auto_release w)
                = Inl (FTPTransferError m)))"
proof (intro conjI impI)
  assume h: "get_connection E
      (logger INFO (''Starting download of '' @ remote @ '' to '' @ local)
         (last_attempt 5 (download_file_body E remote local cb auto_release) w))
      = (Inr ftp, w1)
    \<and> download_stream E remote local cb ftp w1 = (Inr (), w2)
    \<and> call_int E (GetSize local) w2 = (Inr 0, w3)"
  have last: "download_file_body E remote local cb auto_release
                (last_attempt 5 (download_file_body E remote local cb auto_release) w)
              = download_file E remote local cb auto_release w"
    by (simp add: retry_last_attempt download_file_def)
  from h download_attempt_zero_byte_fails
         [of E remote local
             "last_attempt 5 (download_file_body E remote local cb auto_release) w"
             ftp w1 cb w2 w3 auto_release]
  have att: "(\<exists>m. fst (download_file_body E remote local cb auto_release
                 (last_attempt 5 (download_file_body E remote local cb auto_release) w))
               = Inl (FTPTransferError m))
     \<and> (fst (release_connection E ftp auto_release w3) = Inr () \<longrightarrow>
          fst (download_file_body E remote local cb auto_release
                 (last_attempt 5 (download_file_body E remote local cb auto_release) w))
            = Inl (FTPTransferError
                (''Error during download: Downloaded file '' @ local @ '' is empty (0KB)'')))"
    by blast
  from att last show "\<exists>m. fst (download_file E remote local cb auto_release w)
                = Inl (FTPTransferError m)"
    by simp
  from att last show "fst (release_connection E ftp auto_release w3) = Inr () \<Longrightarrow>
             fst (download_file E remote local cb auto_release w)
               = Inl (FTPTransferError
                   (''Error during download: Downloaded file '' @ local
                    @ '' is empty (0KB)''))"
    by simp
next
  assume z: "\<forall>t n. ans_int E t (GetSize local) = Inr n \<longrightarrow> n = 0"
  have last: "download_file_body E remote local cb auto_release
                (last_attempt 5 (download_file_body E remote local cb auto_release) w)
              = download_file E remote local cb auto_release w"
    by (simp add: retry_last_attempt download_file_def)
  show "\<exists>m. fst (download_file E remote local cb auto_release w) = Inl (FTPTransferError m)"
  proof (cases "fst (download_file E remote local cb auto_release w)")
    case (Inl e)
    with last download_file_body_error
           [of E remote local cb auto_release
               "last_attempt 5 (download_file_body E remote local cb auto_release) w" e]
    show ?thesis by simp
  next
    case (Inr u)
    with last download_file_body_not_ok
           [OF z, of remote cb auto_release
               "last_attempt 5 (download_file_body E remote local cb auto_release) w" u]
    show ?thesis by simp
  qed
qed

text \<open>
  The server of the example ends every download without error and without a
  chunk: all five attempts stream to the end, and \<^verbatim>\<open>download_file\<close> raises.
\<close>

theorem download_zero_byte_is_failure_witness:
  "get_connection server_empty_file dl_start = (Inr 0, dl_acquired)
   \<and> download_stream server_empty_file ''/r/f.txt'' ''f.txt'' (None :: unit option) 0 dl_acquired
       = (Inr (), dl_streamed)
   \<and> call_int server_empty_file (GetSize ''f.txt'') dl_streamed = (Inr 0, dl_measured)
   \<and> fst (release_connection server_empty_file 0 True dl_measured) = Inr ()
   \<and> ans_int server_empty_file 4 (GetSize ''f.txt'') = Inr 0
   \<and> fst (download_file server_empty_file ''/r/f.txt'' ''f.txt'' (None :: unit option)
            True (FTPClient_init 5 5 1000 10000))
       = Inl (FTPTransferError ''Error during download: Downloaded file f.txt is empty (0KB)'')
   \<and> trace (snd (download_file server_empty_file ''/r/f.txt'' ''f.txt'' (None :: unit option)
            True (FTPClient_init 5 5 1000 10000)))
       = [Connect, OpenWB ''f.txt'', Size 0 ''/r/f.txt'', Retr 0 ''/r/f.txt'',
          GetSize ''f.txt'', Noop 0, OpenWB ''f.txt'', Size 0 ''/r/f.txt'',
          Retr 0 ''/r/f.txt'', GetSize ''f.txt'', Noop 0, OpenWB ''f.txt'',
          Size 0 ''/r/f.txt'', Retr 0 ''/r/f.txt'', GetSize ''f.txt'', Noop 0,
          OpenWB ''f.txt'', Size 0 ''/r/f.txt'', Retr 0 ''/r/f.txt'',
          GetSize ''f.txt'', Noop 0, OpenWB ''f.txt'', Size 0 ''/r/f.txt'',
          Retr 0 ''/r/f.txt'', GetSize ''f.txt'']"
proof -
  have a: "get_connection server_empty_file dl_start = (Inr 0, dl_acquired)"
    unfolding dl_acquired_def dl_start_def by code_simp
  have b: "download_stream server_empty_file ''/r/f.txt'' ''f.txt'' (None :: unit option) 0
             dl_acquired = (Inr (), dl_streamed)"
    unfolding dl_streamed_def dl_acquired_def dl_start_def by code_simp
  have c: "call_int server_empty_file (GetSize ''f.txt'') dl_streamed = (Inr 0, dl_measured)"
    unfolding dl_measured_def dl_streamed_def dl_acquired_def dl_start_def by code_simp
  have d: "fst (release_connection server_empty_file 0 True dl_measured) = Inr ()"
    unfolding dl_measured_def dl_streamed_def dl_acquired_def dl_start_def by code_simp
  have e: "\<forall>t n. ans_int server_empty_file t (GetSize ''f.txt'') = Inr n \<longrightarrow> n = 0"
    by (simp add: server_empty_file_def)
  have f: "ans_int server_empty_file 4 (GetSize ''f.txt'') = Inr 0"
    by (simp add: server_empty_file_def)
  have g: "trace (snd (download_file server_empty_file ''/r/f.txt'' ''f.txt''
            (None :: unit option) True (FTPClient_init 5 5 1000 10000)))
       = [Connect, OpenWB ''f.txt'', Size 0 ''/r/f.txt'', Retr 0 ''/r/f.txt'',
          GetSize ''f.txt'', Noop 0, OpenWB ''f.txt'', Size 0 ''/r/f.txt'',
          Retr 0 ''/r/f.txt'', GetSize ''f.txt'', Noop 0, OpenWB ''f.txt'',
          Size 0 ''/r/f.txt'', Retr 0 ''/r/f.txt'', GetSize ''f.txt'', Noop 0,
          OpenWB ''f.txt'', Size 0 ''/r/f.txt'', Retr 0 ''/r/f.txt'',
          GetSize ''f.txt'', Noop 0, OpenWB ''f.txt'', Size 0 ''/r/f.txt'',
          Retr 0 ''/r/f.txt'', GetSize ''f.txt'']"
    by code_simp
  from download_zero_byte_is_failure
         [of server_empty_file "''/r/f.txt''" "''f.txt''" "None :: unit option" True
             "FTPClient_init 5 5 1000 10000" 0 dl_acquired dl_streamed dl_measured]
       a b c d e f g
  show ?thesis by (simp add: dl_start_def)
qed

text \<open>
  An attempt that leaves a file of zero bytes is a failed attempt like any other:
  the decorator starts the download again, and the call returns normally when a
  later attempt does. Here the first attempt fails on the empty file and the second
  one succeeds.
\<close>

lemma zero_byte_attempt_is_retried:
  "fst (download_file_body server_second_try ''/r/f.txt'' ''f.txt'' (None :: unit option)
          True (FTPClient_init 5 5 1000 10000))
     = Inl (FTPTransferError ''Error during download: Downloaded file f.txt is empty (0KB)'')
   \<and> fst (download_file server_second_try ''/r/f.txt'' ''f.txt'' (None :: unit option)
            True (FTPClient_init 5 5 1000 10000)) = Inr ()
   \<and> trace (snd (download_file server_second_try ''/r/f.txt'' ''f.txt'' (None :: unit option)
            True (FTPClient_init 5 5 1000 10000)))
       = [Connect, OpenWB ''f.txt'', Size 0 ''/r/f.txt'', Retr 0 ''/r/f.txt'',
          GetSize ''f.txt'', Noop 0, OpenWB ''f.txt'', Size 0 ''/r/f.txt'',
          Retr 0 ''/r/f.txt'', GetSize ''f.txt'']"
  by code_simp

text \<open>
  The callbacks of \<^verbatim>\<open>download_file\<close> leave the state as it is, whatever the chunks
  and however many: between the \<^verbatim>\<open>RETR\<close> and the end of the stream no call is
  issued on the session.
\<close>

lemma feed_download_callback:
  "snd (feed (download_callback cb) chunks w) = w"
  by (induction chunks arbitrary: w)
     (auto simp: download_callback_def return_def raise_def split: option.splits)

lemma stream_call_download_trace:
  "trace (snd (stream_call E (Retr ftp p) (download_callback cb) w)) = trace w @ [Retr ftp p]"
proof -
  obtain chunks fin where a: "ans_stream E (tick w) (Retr ftp p) = (chunks, fin)"
    by (cases "ans_stream E (tick w) (Retr ftp p)")
  obtain r w' where f: "feed (download_callback cb) chunks (issue (Retr ftp p) w) = (r, w')"
    by (cases "feed (download_callback cb) chunks (issue (Retr ftp p) w)")
  from feed_download_callback[of cb chunks "issue (Retr ftp p) w"] f
  have "w' = issue (Retr ftp p) w" by simp
  with a f show ?thesis
    by (cases r) (simp_all add: stream_call_def issue_def)
qed

text \<open>
  Claim C9. The claim: during the streaming phase of every download a keepalive is
  issued on the session at a bounded cadence. The code, for a download that
  arrives in three chunks: the calls of the whole download are the connection, the
  opening of the local file, \<^verbatim>\<open>SIZE\<close>, \<^verbatim>\<open>RETR\<close> and the measuring of the local
  file; no \<^verbatim>\<open>NOOP\<close> is among them.
\<close>

theorem download_issues_no_keepalive:
  "fst (download_file server_three_chunks ''/r/f.txt'' ''f.txt'' (None :: unit option) True
          (FTPClient_init 5 5 1000 10000)) = Inr ()
   \<and> trace (snd (download_file server_three_chunks ''/r/f.txt'' ''f.txt''
          (None :: unit option) True (FTPClient_init 5 5 1000 10000)))
     = [Connect, OpenWB ''f.txt'', Size 0 ''/r/f.txt'', Retr 0 ''/r/f.txt'',
        GetSize ''f.txt'']"
  by code_simp

section \<open>Existence check and move\<close>

text \<open>
  Claim C10. \<^verbatim>\<open>check_file_exists\<close> returns a boolean and never raises. Whenever
  its \<^verbatim>\<open>with\<close> statement ends in an exception it returns \<^verbatim>\<open>False\<close>; so it does
  when no session can be acquired and when the listing fails. That is the answer
  for an absent file: when the listing comes back without the base name the
  result is \<^verbatim>\<open>False\<close> as well, so the caller cannot tell the two apart (when the
  listing comes back and the release succeeds, the result says whether the base
  name is listed). \<^verbatim>\<open>move_file\<close>, which reads the answer without the pooled
  release, takes the destination for free on \<^verbatim>\<open>False\<close>: its collision step
  issues no call and keeps the destination path.
\<close>

theorem check_file_exists_never_raises:
  "(\<exists>b. fst (check_file_exists E p ar w) = Inr b)
   \<and> (\<forall>e. fst (ftp_connection E ar
                (\<lambda>ftp. bind (call_list E (Nlst ftp (dirname p)))
                         (\<lambda>files. return (basename p \<in> set files))) w) = Inl e
          \<longrightarrow> fst (check_file_exists E p ar w) = Inr False)
   \<and> (\<forall>e. fst (get_connection E w) = Inl e
          \<longrightarrow> fst (check_file_exists E p ar w) = Inr False)
   \<and> (\<forall>ftp e. fst (get_connection E w) = Inr ftp
              \<and> fst (call_list E (Nlst ftp (dirname p)) (snd (get_connection E w))) = Inl e
          \<longrightarrow> fst (check_file_exists E p ar w) = Inr False)
   \<and> (fst (check_file_exists E p False w) = Inr False
          \<longrightarrow> bind (check_file_exists E p False)
                (\<lambda>dest_exists. move_collision E c p dest_exists overwrite) w
              = (Inr p, snd (check_file_exists E p False w)))
   \<and> (\<forall>ftp files. fst (get_connection E w) = Inr ftp
              \<and> fst (call_list E (Nlst ftp (dirname p)) (snd (get_connection E w)))
                  = Inr files
              \<and> basename p \<notin> set files
          \<longrightarrow> fst (check_file_exists E p ar w) = Inr False)
   \<and> (\<forall>ftp files. fst (get_connection E w) = Inr ftp
              \<and> fst (call_list E (Nlst ftp (dirname p)) (snd (get_connection E w)))
                  = Inr files
              \<and> fst (release_connection E ftp ar
                       (snd (call_list E (Nlst ftp (dirname p)) (snd (get_connection E w)))))
                  = Inr ()
          \<longrightarrow> fst (check_file_exists E p ar w) = Inr (basename p \<in> set files))"
proof (intro conjI allI impI)
  show "\<exists>b. fst (check_file_exists E p ar w) = Inr b"
    by (auto simp: check_file_exists_def split: prod.splits sum.splits)
next
  fix e
  assume "fst (ftp_connection E ar
                (\<lambda>ftp. bind (call_list E (Nlst ftp (dirname p)))
                         (\<lambda>files. return (basename p \<in> set files))) w) = Inl e"
  then show "fst (check_file_exists E p ar w) = Inr False"
    by (auto simp: check_file_exists_def split: prod.splits sum.splits)
next
  fix e
  assume "fst (get_connection E w) = Inl e"
  then show "fst (check_file_exists E p ar w) = Inr False"
    by (auto simp: check_file_exists_def ftp_connection_def split: prod.splits sum.splits)
next
  fix ftp e
  assume "fst (get_connection E w) = Inr ftp
     \<and> fst (call_list E (Nlst ftp (dirname p)) (snd (get_connection E w))) = Inl e"
  then show "fst (check_file_exists E p ar w) = Inr False"
    by (auto simp: check_file_exists_def ftp_connection_def bind_def
        split: prod.splits sum.splits)
next
  assume "fst (check_file_exists E p False w) = Inr False"
  then show "bind (check_file_exists E p False)
                (\<lambda>dest_exists. move_collision E c p dest_exists overwrite) w
              = (Inr p, snd (check_file_exists E p False w))"
    by (cases "check_file_exists E p False w")
       (simp add: bind_def move_collision_def return_def)
next
  fix ftp files
  assume "fst (get_connection E w) = Inr ftp
     \<and> fst (call_list E (Nlst ftp (dirname p)) (snd (get_connection E w))) = Inr files
     \<and> basename p \<notin> set files"
  then show "fst (check_file_exists E p ar w) = Inr False"
    by (auto simp: check_file_exists_def ftp_connection_def bind_def return_def
        split: prod.splits sum.splits)
next
  fix ftp files
  assume "fst (get_connection E w) = Inr ftp
     \<and> fst (call_list E (Nlst ftp (dirname p)) (snd (get_connection E w))) = Inr files
     \<and> fst (release_connection E ftp ar
              (snd (call_list E (Nlst ftp (dirname p)) (snd (get_connection E w))))) = Inr ()"
  then show "fst (check_file_exists E p ar w) = Inr (basename p \<in> set files)"
    by (auto simp: check_file_exists_def ftp_connection_def bind_def return_def
        split: prod.splits sum.splits)
qed

text \<open>
  No connection: \<^verbatim>\<open>False\<close>. The listing fails: \<^verbatim>\<open>False\<close>, and the collision step
  of \<^verbatim>\<open>move_file\<close> keeps the destination. The listing comes back without
  \<^verbatim>\<open>h.txt\<close>: \<^verbatim>\<open>False\<close> again. The listing comes back with \<^verbatim>\<open>f.txt\<close>: \<^verbatim>\<open>True\<close>.
\<close>

theorem check_file_exists_never_raises_witness:
  "fst (get_connection server_down (FTPClient_init 5 5 1000 10000))
     = Inl (FTPConnectionError ''Error connecting to FTP server: Connection refused'')
   \<and> fst (check_file_exists server_down ''/b/f.txt'' True (FTPClient_init 5 5 1000 10000))
       = Inr False
   \<and> fst (get_connection server_list_fails (FTPClient_init 5 5 1000 10000)) = Inr 0
   \<and> fst (call_list server_list_fails (Nlst 0 (dirname ''/b/f.txt''))
            (snd (get_connection server_list_fails (FTPClient_init 5 5 1000 10000))))
       = Inl (error_temp ''421 Service not available'')
   \<and> fst (check_file_exists server_list_fails ''/b/f.txt'' False
            (FTPClient_init 5 5 1000 10000)) = Inr False
   \<and> bind (check_file_exists server_list_fails ''/b/f.txt'' False)
        (\<lambda>dest_exists. move_collision server_list_fails 0 ''/b/f.txt'' dest_exists True)
        (FTPClient_init 5 5 1000 10000)
       = (Inr ''/b/f.txt'',
          snd (check_file_exists server_list_fails ''/b/f.txt'' False
                 (FTPClient_init 5 5 1000 10000)))
   \<and> fst (call_list server_collision (Nlst 0 (dirname ''/b/h.txt''))
            (snd (get_connection server_collision (FTPClient_init 5 5 1000 10000))))
       = Inr [''f.txt'', ''g.txt'']
   \<and> basename ''/b/h.txt'' \<notin> set [''f.txt'', ''g.txt'']
   \<and> fst (check_file_exists server_collision ''/b/h.txt'' True (FTPClient_init 5 5 1000 10000))
       = Inr False
   \<and> fst (check_file_exists server_collision ''/b/f.txt'' True (FTPClient_init 5 5 1000 10000))
       = Inr True"
proof -
  have a: "fst (get_connection server_down (FTPClient_init 5 5 1000 10000))
     = Inl (FTPConnectionError ''Error connecting to FTP server: Connection refused'')"
    by code_simp
  have b: "fst (get_connection server_list_fails (FTPClient_init 5 5 1000 10000)) = Inr 0"
    by code_simp
  have c: "fst (call_list server_list_fails (Nlst 0 (dirname ''/b/f.txt''))
            (snd (get_connection server_list_fails (FTPClient_init 5 5 1000 10000))))
       = Inl (error_temp ''421 Service not available'')"
    by code_simp
  have d: "fst (get_connection server_collision (FTPClient_init 5 5 1000 10000)) = Inr 0"
    by code_simp
  have e: "fst (call_list server_collision (Nlst 0 (dirname ''/b/h.txt''))
            (snd (get_connection server_collision (FTPClient_init 5 5 1000 10000))))
       = Inr [''f.txt'', ''g.txt'']"
    by code_simp
  have f: "basename ''/b/h.txt'' \<notin> set [''f.txt'', ''g.txt'']"
    by code_simp
  have g: "fst (call_list server_collision (Nlst 0 (dirname ''/b/f.txt''))
            (snd (get_connection server_collision (FTPClient_init 5 5 1000 10000))))
       = Inr [''f.txt'', ''g.txt'']"
    by code_simp
  have h: "fst (release_connection server_collision 0 True
             (snd (call_list server_collision (Nlst 0 (dirname ''/b/f.txt''))
                (snd (get_connection server_collision (FTPClient_init 5 5 1000 10000))))))
       = Inr ()"
    by code_simp
  have i: "basename ''/b/f.txt'' \<in> set [''f.txt'', ''g.txt'']"
    by code_simp
  from check_file_exists_never_raises
         [of server_down "''/b/f.txt''" True "FTPClient_init 5 5 1000 10000" 0 True]
       check_file_exists_never_raises
         [of server_list_fails "''/b/f.txt''" False "FTPClient_init 5 5 1000 10000" 0 True]
       check_file_exists_never_raises
         [of server_collision "''/b/h.txt''" True "FTPClient_init 5 5 1000 10000" 0 True]
       check_file_exists_never_raises
         [of server_collision "''/b/f.txt''" True "FTPClient_init 5 5 1000 10000" 0 True]
       a b c d e f g h i
  show ?thesis by auto
qed

text \<open>
  With an existing destination and without overwrite, the collision step of
  \<^verbatim>\<open>move_file\<close> raises \<^verbatim>\<open>AttributeError\<close> before any call, on every server.
\<close>

lemma move_collision_no_overwrite:
  "move_collision E ftp dest_remote_path True False w
     = (Inl (AttributeError ''type object datetime.datetime has no attribute datetime''), w)"
  by (simp add: move_collision_def raise_def)

text \<open>
  Claim C7. The claim: \<^verbatim>\<open>move_file\<close> with \<^verbatim>\<open>overwrite=False\<close> and an existing
  destination moves the file to a new name carrying a timestamp, and does not
  delete the existing destination. The code, moving \<^verbatim>\<open>/a/f.txt\<close> to \<^verbatim>\<open>/b\<close> where
  \<^verbatim>\<open>/b/f.txt\<close> exists: all five attempts fail, \<^verbatim>\<open>move_file\<close> raises
  \<^verbatim>\<open>FTPTransferError\<close>, and neither a rename nor a delete is ever issued.
\<close>

theorem move_no_overwrite_fails:
  "fst (move_file server_collision ''/a/f.txt'' ''/b'' True False
          (FTPClient_init 5 5 1000 10000))
     = Inl (FTPTransferError
         ''Failed to move file from /a/f.txt to /b: type object datetime.datetime has no attribute datetime'')
   \<and> trace (snd (move_file server_collision ''/a/f.txt'' ''/b'' True False
          (FTPClient_init 5 5 1000 10000)))
     = [Connect, Connect, Cwd 1 ''/b'', Connect, Nlst 2 ''/b'', Noop 0,
        Connect, Cwd 3 ''/b'', Connect, Nlst 4 ''/b'', Noop 0, Connect,
        Cwd 5 ''/b'', Connect, Nlst 6 ''/b'', Noop 0, Connect, Cwd 7 ''/b'',
        Connect, Nlst 8 ''/b'', Noop 0, Connect, Cwd 9 ''/b'', Connect,
        Nlst 10 ''/b'']"
  by code_simp

section \<open>Integrity verification: size mismatch\<close>

text \<open>
  When the sizes differ, the inner \<^verbatim>\<open>try\<close> raises the size-mismatch error, and its
  own handler catches it: the block goes on with the download of the remote file.
\<close>

lemma verify_remote_checksum_size_mismatch:
  assumes "call_int E (GetSize local) w = (Inr local_size, w1)"
    and "call_size E (Size ftp remote) w1 = (Inr remote_size, w2)"
    and "Some local_size \<noteq> remote_size"
  shows "verify_remote_checksum E ftp local remote w
    = (Inl (FTPTransferError (''File size mismatch for '' @ local @ '' and '' @ remote)), w2)"
  using assms by (simp add: verify_remote_checksum_def bind_def raise_def)

lemma verify_block_size_mismatch:
  assumes "call_int E (GetSize local) w = (Inr local_size, w1)"
    and "call_size E (Size ftp remote) w1 = (Inr remote_size, w2)"
    and "Some local_size \<noteq> remote_size"
  shows "verify_block E local remote local_checksum ftp w
    = (case verify_fallback E local remote w2 of
         (Inl e, w3) \<Rightarrow> (Inl e, w3)
       | (Inr remote_checksum, w3) \<Rightarrow>
           if local_checksum \<noteq> remote_checksum
           then (Inl (FTPTransferError
                       (''Checksum mismatch for '' @ local @ '' and '' @ remote)), w3)
           else (Inr (),
                 logger INFO (''Checksum verified for '' @ local @ '' and '' @ remote) w3))"
  using verify_remote_checksum_size_mismatch[OF assms]
  by (simp add: verify_block_def)

text \<open>
  Claim C1. The claim: when the local and the remote size differ,
  \<^verbatim>\<open>verify_file_integrity\<close> fails at once with a size-mismatch error and issues no
  checksum command, neither \<^verbatim>\<open>SITE MD5\<close> nor the download-and-hash fallback. The
  code, for a local file of 100 bytes and a remote one of 200: \<^verbatim>\<open>SITE MD5\<close> is not
  sent, but the remote file is downloaded, hashed and removed, and the error raised
  is the checksum mismatch; where the two digests agree the verification succeeds.
\<close>

theorem size_mismatch_falls_back:
  "fst (verify_file_integrity server_size_mismatch ''f.txt'' ''/r/f.txt'' True
          (FTPClient_init 5 5 1000 10000))
     = Inl (FTPTransferError
         ''Failed to verify integrity for f.txt: Checksum mismatch for f.txt and /r/f.txt'')
   \<and> trace (snd (verify_file_integrity server_size_mismatch ''f.txt'' ''/r/f.txt'' True
          (FTPClient_init 5 5 1000 10000)))
     = [Md5 ''f.txt'', Connect, GetSize ''f.txt'', Size 0 ''/r/f.txt'',
        Connect, OpenWB ''f.txt.temp'', Size 1 ''/r/f.txt'',
        Retr 1 ''/r/f.txt'', GetSize ''f.txt.temp'', Md5 ''f.txt.temp'',
        Remove ''f.txt.temp'']
   \<and> fst (verify_file_integrity
            (server_size_mismatch\<lparr>ans_str := (\<lambda>t c. Inr ''d41d'')\<rparr>)
            ''f.txt'' ''/r/f.txt'' True (FTPClient_init 5 5 1000 10000)) = Inr ()"
  by code_simp

section \<open>Batches\<close>

text \<open>
  Every item is run, and the loop over the futures ends normally when every outcome
  is a success or an \<^verbatim>\<open>FTPTransferError\<close>. The outcomes of \<^verbatim>\<open>download_file\<close>
  are all of that kind, so \<^verbatim>\<open>parallel_download\<close> returns normally for every
  batch and every server, once the executor could be built.
\<close>

lemma submit_all_length: "length (fst (submit_all task items w)) = length items"
proof (induction items arbitrary: w)
  case Nil
  then show ?case by simp
next
  case (Cons i items)
  obtain r w1 where t: "task i w = (r, w1)" by (cases "task i w")
  obtain rs w2 where s: "submit_all task items w1 = (rs, w2)"
    by (cases "submit_all task items w1")
  from Cons.IH[of w1] t s show ?case by simp
qed

lemma await_all_settled:
  "list_all settled rs \<Longrightarrow> fst (await_all what rs w) = Inr ()"
  by (induction what rs w rule: await_all.induct)
     (auto simp: settled_def split: exn.splits)

lemma download_file_settled: "settled (fst (download_file E remote local cb ar w))"
proof (cases "fst (download_file E remote local cb ar w)")
  case (Inl e)
  with download_file_error[OF Inl] show ?thesis by (auto simp: settled_def)
next
  case (Inr u)
  then show ?thesis by (simp add: settled_def)
qed

lemma submit_all_downloads_settled:
  "list_all settled
     (fst (submit_all (\<lambda>(remote, local). download_file E remote local (None :: unit option) True)
             files w))"
proof (induction files arbitrary: w)
  case Nil
  then show ?case by simp
next
  case (Cons f files)
  obtain remote local where f: "f = (remote, local)" by (cases f)
  obtain r w1 where d: "download_file E remote local (None :: unit option) True w = (r, w1)"
    by (cases "download_file E remote local (None :: unit option) True w")
  obtain rs w2 where s: "submit_all
      (\<lambda>(remote, local). download_file E remote local (None :: unit option) True) files w1
      = (rs, w2)"
    by (cases "submit_all
      (\<lambda>(remote, local). download_file E remote local (None :: unit option) True) files w1")
  from download_file_settled[of E remote local "None :: unit option" True w] d
  have "settled r" by simp
  with Cons.IH[of w1] f d s show ?case by simp
qed

lemma parallel_download_returns:
  assumes "0 < max_connections w"
  shows "fst (parallel_download E files w) = Inr ()"
proof -
  obtain rs w1 where s: "submit_all
      (\<lambda>(remote, local). download_file E remote local (None :: unit option) True) files w
      = (rs, w1)"
    by (cases "submit_all
      (\<lambda>(remote, local). download_file E remote local (None :: unit option) True) files w")
  from submit_all_downloads_settled[of E files w] s have "list_all settled rs" by simp
  from await_all_settled[OF this, of "''download''" w1] assms s show ?thesis
    by (simp add: parallel_download_def)
qed

text \<open>
  Claim C8. The claim: a failure of an item of \<^verbatim>\<open>parallel_upload\<close> or
  \<^verbatim>\<open>parallel_download\<close> is caught and logged, and never makes the batch call raise.
  The code, for a batch of one upload while no connection can be made:
  \<^verbatim>\<open>upload_file\<close> raises \<^verbatim>\<open>FTPConnectionError\<close>, which the loop over the futures
  does not catch, and \<^verbatim>\<open>parallel_upload\<close> raises it. The same batch as a download
  returns normally.
\<close>

theorem parallel_upload_raises:
  "fst (parallel_upload server_down [(''a.txt'', ''/r/a.txt'')] (FTPClient_init 5 5 1000 10000))
     = Inl (FTPConnectionError ''Error connecting to FTP server: Connection refused'')
   \<and> fst (parallel_download server_down [(''/r/a.txt'', ''a.txt'')]
            (FTPClient_init 5 5 1000 10000)) = Inr ()"
  by code_simp

end
